theory Spec2Isabelle
  imports Complex_Main
begin

section \<open>JavaScript values used by the classification frontend\<close>

text \<open>
  The pages keep the server's payloads in variables of type \<open>any\<close>, so the model keeps
  them as JSON values. \<open>JNull\<close> is JavaScript's \<open>null\<close>; a property that is missing
  (\<open>undefined\<close>) is \<open>None\<close> of an option. A JSON number carries its value and the text
  that the engine prints for it (ECMAScript Number::toString), which the engine supplies
  together with the value. An object is the list of its entries in iteration order.
  Strings are byte lists in UTF-8; the program only compares them and tests them for
  emptiness.
\<close>

datatype json =
    JNull
  | JBool bool
  | JNum rat string
  | JStr string
  | JArr "json list"
  | JObj "(string \<times> json) list"

text \<open>ECMAScript ToBoolean, as used by \<open>!x\<close>, \<open>x || y\<close> and \<open>if (x)\<close>.\<close>

fun truthy :: "json \<Rightarrow> bool" where
  "truthy JNull = False"
| "truthy (JBool b) = b"
| "truthy (JNum r t) = (r \<noteq> 0)"
| "truthy (JStr s) = (s \<noteq> [])"
| "truthy (JArr xs) = True"
| "truthy (JObj kvs) = True"

text \<open>
  \<open>v.k\<close> on a value that is not \<open>null\<close>: the entry of an object, \<open>undefined\<close> on anything
  else. The property names the program reads (\<open>id\<close>, \<open>modulo\<close>, \<open>descricao\<close>,
  \<open>habilidade_descricao\<close>, \<open>detail\<close>) are not built-in properties of any JavaScript
  value.
\<close>

fun get :: "json \<Rightarrow> string \<Rightarrow> json option" where
  "get (JObj kvs) k = map_of kvs k"
| "get v k = None"

datatype js_error =
    Error string
  | TypeError string
  | SyntaxError string

fun message :: "js_error \<Rightarrow> string" where
  "message (Error m) = m"
| "message (TypeError m) = m"
| "message (SyntaxError m) = m"

text \<open>\<open>v.k\<close> on any value: reading a property of \<open>null\<close> throws a TypeError.\<close>

definition null_read :: "string \<Rightarrow> string" where
  "null_read k = ''Cannot read properties of null (reading '' @ [CHR 0x27] @ k @ [CHR 0x27] @ '')''"

fun read_prop :: "json \<Rightarrow> string \<Rightarrow> js_error + json option" where
  "read_prop JNull k = Inl (TypeError (null_read k))"
| "read_prop v k = Inr (get v k)"

text \<open>
  ECMAScript ToString on a JSON value, which \<open>new Error(v)\<close> applies to its argument.
  An object is converted by its \<open>toString\<close>: the inherited one gives the text
  \<open>[object Object]\<close>, but an own property of that name, which in a parsed body is never
  a function, hides it, and the conversion throws a TypeError. An array prints its
  elements separated by commas, \<open>null\<close> elements as the empty text, and throws when an
  element does.
\<close>

definition no_primitive :: string where
  "no_primitive = ''Cannot convert object to primitive value''"

fun to_str :: "json \<Rightarrow> js_error + string"
  and join_elems :: "json list \<Rightarrow> js_error + string" where
  "to_str JNull = Inr ''null''"
| "to_str (JBool b) = Inr (if b then ''true'' else ''false'')"
| "to_str (JNum r t) = Inr t"
| "to_str (JStr s) = Inr s"
| "to_str (JArr xs) = join_elems xs"
| "to_str (JObj kvs) =
     (if map_of kvs ''toString'' \<noteq> None then Inl (TypeError no_primitive)
      else Inr ''[object Object]'')"
| "join_elems [] = Inr []"
| "join_elems (x # xs) =
     (case (if x = JNull then Inr [] else to_str x) of
        Inl e \<Rightarrow> Inl e
      | Inr s \<Rightarrow>
          if xs = [] then Inr s
          else (case join_elems xs of
                  Inl e \<Rightarrow> Inl e
                | Inr t \<Rightarrow> Inr (s @ '','' @ t)))"

text \<open>
  \<open>JSON.stringify({k1: v1, ...})\<close>: properties whose value is \<open>undefined\<close> are left out.
  The model keeps the object that the text encodes.
\<close>

fun stringify :: "(string \<times> json option) list \<Rightarrow> json" where
  "stringify kvs = JObj (List.concat (map (\<lambda>(k, v). case v of None \<Rightarrow> [] | Some x \<Rightarrow> [(k, x)]) kvs))"

section \<open>The session store: lib/auth.ts\<close>

text \<open>
  \<open>window\<close> holds the persisted storage and the address of the page. Where the code
  runs without a browser (\<open>typeof window === 'undefined'\<close>) there is no window: \<open>None\<close>.
\<close>

record window =
  localStorage :: "string \<rightharpoonup> string"
  location_href :: string

record Usuario =
  usuario_id :: int
  nome :: string
  email :: string
  disciplina :: string
  is_admin :: bool
  ativo :: bool

definition getToken :: "window option \<Rightarrow> string option" where
  "getToken w = (case w of None \<Rightarrow> None | Some win \<Rightarrow> localStorage win ''token'')"

definition clearAuth :: "window option \<Rightarrow> window option" where
  "clearAuth w =
     (case w of
        None \<Rightarrow> None
      | Some win \<Rightarrow> Some (win\<lparr>localStorage := (localStorage win)(''token'' := None, ''usuario'' := None)\<rparr>))"

text \<open>
  \<open>getUsuario\<close>. \<open>JSON.parse\<close> is the engine's: it is the parameter \<open>parse\<close>, which
  either throws or returns the parsed profile (\<open>None\<close> for the text \<open>null\<close>). The result
  is the function's outcome: \<open>Inl\<close> an exception that leaves it, \<open>Inr\<close> its return value.
\<close>

definition getUsuario ::
  "(string \<Rightarrow> js_error + Usuario option) \<Rightarrow> window option \<Rightarrow> js_error + Usuario option" where
  "getUsuario parse w =
     (case w of
        None \<Rightarrow> Inr None
      | Some win \<Rightarrow>
          (case localStorage win ''usuario'' of
             None \<Rightarrow> Inr None
           | Some userStr \<Rightarrow>
               if userStr = [] then Inr None
               else (case parse userStr of
                       Inl e \<Rightarrow> Inr None
                     | Inr u \<Rightarrow> Inr u)))"

definition isAuthenticated :: "window option \<Rightarrow> bool" where
  "isAuthenticated w = (case getToken w of None \<Rightarrow> False | Some t \<Rightarrow> t \<noteq> [])"

section \<open>The API gateway client: lib/api.ts\<close>

text \<open>
  An endpoint is the path given to \<open>apiRequest\<close> with the parameters that
  \<open>URLSearchParams\<close> appended to it, in order; their percent-encoding into one text is
  not modelled. The request goes to \<open>API_BASE_URL\<close> followed by the endpoint.
\<close>

record endpoint =
  path :: string
  query :: "(string \<times> string) list"

record RequestInit =
  http_method :: "string option"
  body :: "json option"
  headers :: "(string \<times> string) list"

record request =
  target :: endpoint
  init :: RequestInit

text \<open>
  A response has its status and what \<open>response.json()\<close> settles to: the parsed body, or
  the exception of a body that is not JSON. \<open>response.ok\<close> is true for the statuses 200
  to 299.
\<close>

record response =
  status :: nat
  json_body :: "js_error + json"

definition ok :: "response \<Rightarrow> bool" where
  "ok r = (200 \<le> status r \<and> status r \<le> 299)"

definition generic_message :: string where
  "generic_message = ''Erro na requisi'' @ [CHR 0xC3, CHR 0xA7, CHR 0xC3, CHR 0xA3] @ ''o''"

text \<open>
  The spread of one object of headers into another: a property that is already there
  keeps its place and takes the new value, a new one is added at the end.
\<close>

fun assign :: "(string \<times> string) list \<Rightarrow> string \<Rightarrow> string \<Rightarrow> (string \<times> string) list" where
  "assign [] k v = [(k, v)]"
| "assign ((k', v') # rest) k v =
     (if k' = k then (k, v) # rest else (k', v') # assign rest k v)"

fun spread :: "(string \<times> string) list \<Rightarrow> (string \<times> string) list \<Rightarrow> (string \<times> string) list" where
  "spread base [] = base"
| "spread base ((k, v) # later) = spread (assign base k v) later"

text \<open>
  \<open>apiRequest\<close> up to its first \<open>await\<close>: the token is read and the request is handed to
  \<open>fetch\<close>. The headers are the content type, then the authorization when there is a
  token, then the caller's, each spread over the ones before.
\<close>

definition apiRequest_request :: "window option \<Rightarrow> endpoint \<Rightarrow> RequestInit \<Rightarrow> request" where
  "apiRequest_request w e options =
     (let token = (case w of None \<Rightarrow> None | Some win \<Rightarrow> localStorage win ''token'');
          hs = spread
                 (spread [(''Content-Type'', ''application/json'')]
                    (case token of
                       None \<Rightarrow> []
                     | Some t \<Rightarrow> if t \<noteq> [] then [(''Authorization'', ''Bearer '' @ t)] else []))
                 (headers options)
      in \<lparr>target = e, init = options\<lparr>headers := hs\<rparr>\<rparr>)"

text \<open>
  \<open>apiRequest\<close> after \<open>fetch\<close> has settled, with a rejection (\<open>Inl\<close>, a network
  failure) or a response. The result is the window afterwards and the outcome of the
  call: \<open>Inl\<close> the exception thrown, \<open>Inr\<close> the value returned.
\<close>

definition apiRequest_settle ::
  "window option \<Rightarrow> js_error + response \<Rightarrow> window option \<times> (js_error + json)" where
  "apiRequest_settle w outcome =
     (case outcome of
        Inl e \<Rightarrow> (w, Inl e)
      | Inr r \<Rightarrow>
          (let w1 = (if status r = 401
                     then (case w of
                             None \<Rightarrow> None
                           | Some win \<Rightarrow>
                               Some (win\<lparr>localStorage :=
                                            (localStorage win)(''token'' := None, ''usuario'' := None),
                                          location_href := ''/login''\<rparr>))
                     else w)
           in if \<not> ok r
              then (let errorData = (case json_body r of Inl x \<Rightarrow> JObj [] | Inr v \<Rightarrow> v)
                    in case read_prop errorData ''detail'' of
                         Inl e \<Rightarrow> (w1, Inl e)
                       | Inr d \<Rightarrow>
                           (case (case d of
                                    None \<Rightarrow> Inr generic_message
                                  | Some v \<Rightarrow> if truthy v then to_str v
                                              else Inr generic_message) of
                              Inl e \<Rightarrow> (w1, Inl e)
                            | Inr m \<Rightarrow> (w1, Inl (Error m))))
              else (w1, json_body r)))"

text \<open>The window after the forced logout of a response with status 401.\<close>

definition logged_out :: "window \<Rightarrow> window" where
  "logged_out win =
     win\<lparr>localStorage := (localStorage win)(''token'' := None, ''usuario'' := None),
         location_href := ''/login''\<rparr>"

text \<open>
  What a run does that the outside sees, in order: a request handed to \<open>fetch\<close>, an
  \<open>alert\<close> with its text, a \<open>console.error\<close>.
\<close>

datatype effect =
    Fetch request
  | Alert string
  | ConsoleError js_error

text \<open>
  The whole call. \<open>fetch\<close> is the network: it settles each request with a rejection or
  a response. The call hands exactly the requests listed to it.
\<close>

definition apiRequest ::
  "(request \<Rightarrow> js_error + response) \<Rightarrow> window option \<Rightarrow> endpoint \<Rightarrow> RequestInit
     \<Rightarrow> window option \<times> effect list \<times> (js_error + json)" where
  "apiRequest fetch w e options =
     (let req = apiRequest_request w e options;
          (w1, res) = apiRequest_settle w (fetch req)
      in (w1, [Fetch req], res))"

section \<open>The filter selector: FilterBar\<close>

text \<open>
  The mapping from an area to its disciplines is a JavaScript object with the declared
  type \<open>Record<string, string[]>\<close>: the list of its entries in the order of
  \<open>Object.keys\<close> and \<open>Object.entries\<close>. An object has each key once.
\<close>

type_synonym areas = "(string \<times> string list) list"

record FilterBar =
  area :: string
  disciplinaId :: string
  areasMapping :: areas

definition FilterBar_init :: FilterBar where
  "FilterBar_init = \<lparr>area = [], disciplinaId = [], areasMapping = []\<rparr>"

text \<open>
  \<open>!usuario?.disciplina || usuario.is_admin\<close>: the user has no stored area, or is an
  administrator.
\<close>

definition unrestricted :: "Usuario option \<Rightarrow> bool" where
  "unrestricted u = (case u of None \<Rightarrow> True | Some x \<Rightarrow> disciplina x = [] \<or> is_admin x)"

text \<open>The loop of \<open>loadFilters\<close> over the entries, which stops at the first match.\<close>

fun scan_areas :: "string \<Rightarrow> areas \<Rightarrow> string option" where
  "scan_areas d [] = None"
| "scan_areas d ((areaName, discs) # rest) =
     (if d \<in> set discs then Some areaName else scan_areas d rest)"

text \<open>
  The mapping is a plain object, so \<open>data.areas[k]\<close> also finds the members that every
  object inherits from \<open>Object.prototype\<close>: these are their names. An inherited member
  is a function or an object, and so truthy, as the array of a key is.
\<close>

definition Object_prototype :: "string list" where
  "Object_prototype =
     [''constructor'', ''hasOwnProperty'', ''isPrototypeOf'', ''propertyIsEnumerable'',
      ''toLocaleString'', ''toString'', ''valueOf'', ''__proto__'', ''__defineGetter__'',
      ''__defineSetter__'', ''__lookupGetter__'', ''__lookupSetter__'']"

text \<open>
  \<open>loadFilters\<close>, run once when the component is mounted. \<open>res\<close> is the outcome of
  \<open>apiRequest('/disciplinas')\<close> with \<open>data.areas\<close> at its declared type.
  \<open>data.areas[k]\<close> is truthy exactly when \<open>k\<close> is a key or the name of an inherited
  member.
\<close>

definition loadFilters ::
  "Usuario option \<Rightarrow> js_error + areas \<Rightarrow> FilterBar \<Rightarrow> FilterBar \<times> effect list" where
  "loadFilters u res st =
     (case res of
        Inl err \<Rightarrow> (st, [ConsoleError err])
      | Inr data_areas \<Rightarrow>
          (let st1 = st\<lparr>areasMapping := data_areas\<rparr>
           in case u of
                None \<Rightarrow> (st1, [])
              | Some x \<Rightarrow>
                  if disciplina x \<noteq> []
                  then (if map_of data_areas (disciplina x) \<noteq> None
                           \<or> disciplina x \<in> set Object_prototype
                        then (st1\<lparr>area := disciplina x\<rparr>, [])
                        else (case scan_areas (disciplina x) data_areas of
                                None \<Rightarrow> (st1, [])
                              | Some areaName \<Rightarrow> (st1\<lparr>area := areaName\<rparr>, [])))
                  else (st1, [])))"

text \<open>
  What the component computes when it renders. An option is its value and its label.
  Where the selected area is not a key but the name of an inherited member,
  \<open>areasMapping[area]\<close> is that member and not an array, and the render throws at
  \<open>disciplinasDaArea.map\<close>: nothing is shown, and the empty list stands for the
  disciplines on offer.
\<close>

definition render_throws :: "FilterBar \<Rightarrow> bool" where
  "render_throws st =
     (area st \<noteq> [] \<and> map_of (areasMapping st) (area st) = None
      \<and> area st \<in> set Object_prototype)"

definition disciplinasDaArea :: "FilterBar \<Rightarrow> string list" where
  "disciplinasDaArea st =
     (if area st \<noteq> []
      then (case map_of (areasMapping st) (area st) of None \<Rightarrow> [] | Some ds \<Rightarrow> ds)
      else [])"

definition areaOptions :: "Usuario option \<Rightarrow> FilterBar \<Rightarrow> (string \<times> string) list" where
  "areaOptions u st =
     map (\<lambda>a. (a, a)) (filter (\<lambda>a. unrestricted u \<or> a = area st) (map fst (areasMapping st)))"

definition disciplinaOptions :: "FilterBar \<Rightarrow> (string \<times> string) list" where
  "disciplinaOptions st = map (\<lambda>d. (d, d)) (disciplinasDaArea st)"

text \<open>The \<open>onChange\<close> handlers of the two dropdowns.\<close>

definition area_onChange :: "Usuario option \<Rightarrow> string \<Rightarrow> FilterBar \<Rightarrow> FilterBar" where
  "area_onChange u val st =
     (if unrestricted u then st\<lparr>area := val, disciplinaId := []\<rparr> else st)"

definition disciplina_onChange :: "string \<Rightarrow> FilterBar \<Rightarrow> FilterBar" where
  "disciplina_onChange val st = st\<lparr>disciplinaId := val\<rparr>"

text \<open>
  The operations on the filter state. \<open>loadFilters\<close> settles on the state of the mount,
  in which both dropdowns are empty; a dropdown calls \<open>onChange\<close> only with the value of
  an option it shows.
\<close>

inductive filter_step :: "Usuario option \<Rightarrow> FilterBar \<Rightarrow> FilterBar \<Rightarrow> bool" for u where
  loaded: "filter_step u FilterBar_init (fst (loadFilters u res FilterBar_init))"
| area_picked: "(val, lab) \<in> set (areaOptions u st) \<Longrightarrow> filter_step u st (area_onChange u val st)"
| disciplina_picked:
    "(val, lab) \<in> set (disciplinaOptions st) \<Longrightarrow> filter_step u st (disciplina_onChange val st)"

definition filter_inv :: "FilterBar \<Rightarrow> bool" where
  "filter_inv st = (disciplinaId st = [] \<or> disciplinaId st \<in> set (disciplinasDaArea st))"

section \<open>The similarity badge: MatchBadge\<close>

text \<open>
  A number is an IEEE 754 double: the model has its exact value, a rational. The product
  of two doubles is the double nearest to the exact product, and of two equally near
  the one with the even significand. \<open>to_double\<close> rounds so: \<open>exponent\<close> is the power
  of two at or below the magnitude, found from the bit lengths of numerator and
  denominator; the spacing of the doubles there is 52 binary places finer, and no finer
  than that of the subnormal numbers. Magnitudes beyond the largest double, which
  overflow to \<open>Infinity\<close>, are outside the model, as is \<open>NaN\<close>; a similarity is
  between 0 and 1.
\<close>

function bits :: "int \<Rightarrow> nat" where
  "bits n = (if n \<le> 0 then 0 else Suc (bits (n div 2)))"
  by pat_completeness auto
termination
  by (relation "measure nat") auto

declare bits.simps [simp del]

definition round_half_even :: "rat \<Rightarrow> int" where
  "round_half_even y =
     (let f = \<lfloor>y\<rfloor>; r = y - of_int f
      in if r < 1 / 2 then f
         else if 1 / 2 < r then f + 1
         else if even f then f else f + 1)"

definition exponent :: "rat \<Rightarrow> int" where
  "exponent a =
     (let (p, q) = quotient_of a;
          k = int (bits p) - int (bits q)
      in if 2 powi k \<le> a then k else k - 1)"

definition to_double :: "rat \<Rightarrow> rat" where
  "to_double x =
     (if x = 0 then 0
      else (let a = \<bar>x\<bar>;
                u = 2 powi (max (exponent a) (- 1022) - 52);
                n = round_half_even (a / u)
            in sgn x * of_int n * u))"

definition double_mul :: "rat \<Rightarrow> rat \<Rightarrow> rat" where
  "double_mul x y = to_double (x * y)"

text \<open>
  The score is a number, \<open>null\<close> or \<open>undefined\<close> (\<open>None\<close>). \<open>Math.round\<close> gives the
  nearest integer, a half going upwards, and is exact. The template prints a whole
  number in decimal digits (as JavaScript does for magnitudes below ten to the power
  21). The badge is its text and the three colours of its style.
\<close>

definition Math_round :: "rat \<Rightarrow> int" where
  "Math_round x = \<lfloor>x + 1 / 2\<rfloor>"

fun digits :: "nat \<Rightarrow> string" where
  "digits n =
     (if n < 10 then [''0123456789'' ! n]
      else digits (n div 10) @ [''0123456789'' ! (n mod 10)])"

declare digits.simps [simp del]

definition show_int :: "int \<Rightarrow> string" where
  "show_int i = (if i < 0 then ''-'' @ digits (nat (- i)) else digits (nat i))"

record badge =
  badge_text :: string
  color :: string
  bg :: string
  borderColor :: string

definition MatchBadge :: "rat option \<Rightarrow> badge option" where
  "MatchBadge score =
     (case score of
        None \<Rightarrow> None
      | Some s \<Rightarrow>
          (let pct = Math_round (double_mul s 100);
               (c, b, bc) =
                  (if pct \<ge> 80 then (''#166534'', ''#bbf7d0'', ''#4ade80'')
                   else if pct \<ge> 60 then (''#854d0e'', ''#fef08a'', ''#facc15'')
                   else (''#991b1b'', ''#fecaca'', ''#f87171''))
           in Some \<lparr>badge_text = show_int pct @ ''%'', color = c, bg = b, borderColor = bc\<rparr>))"

section \<open>The classification page: ClassificarPage\<close>

text \<open>
  The component's state variables. \<open>questao\<close> and \<open>moduloSelecionado\<close> are of type
  \<open>any\<close> and start as \<open>null\<close>; the page of the verification workflow has the same
  variables and \<open>isCorrecting\<close>.
\<close>

record page =
  questao :: json
  loading :: bool
  error :: string
  area :: string
  disciplinaFiltro :: string
  saving :: bool
  observacao :: string
  moduloSelecionado :: json

record verificar = page +
  isCorrecting :: bool

definition salvar :: endpoint where
  "salvar = \<lparr>path = ''/salvar'', query = []\<rparr>"

definition no_options :: RequestInit where
  "no_options = \<lparr>http_method = None, body = None, headers = []\<rparr>"

definition post :: "json \<Rightarrow> RequestInit" where
  "post b = \<lparr>http_method = Some ''POST'', body = Some b, headers = []\<rparr>"

text \<open>
  The query of \<open>fetchProxima\<close>: a filter value is appended only when it is truthy, that
  is, a text that is not empty.
\<close>

definition proxima_query :: "string \<Rightarrow> string \<Rightarrow> (string \<times> string) list" where
  "proxima_query areaFiltro discFiltro =
     (if areaFiltro \<noteq> [] then [(''area'', areaFiltro)] else [])
     @ (if discFiltro \<noteq> [] then [(''disciplina_id'', discFiltro)] else [])"

definition no_question :: string where
  "no_question = ''Nenhuma quest'' @ [CHR 0xC3, CHR 0xA3] @ ''o encontrada com esses filtros.''"

text \<open>
  \<open>fetchProxima\<close> runs in two parts. The first, up to the \<open>await\<close>, resets the state
  and hands the request to \<open>fetch\<close>; the second runs when the request has settled.
\<close>

definition fetchProxima_request :: "window option \<Rightarrow> string \<Rightarrow> string \<Rightarrow> request" where
  "fetchProxima_request w areaFiltro discFiltro =
     apiRequest_request w \<lparr>path = ''/proxima'', query = proxima_query areaFiltro discFiltro\<rparr> no_options"

definition fetchProxima_begin ::
  "window option \<Rightarrow> page \<Rightarrow> string \<Rightarrow> string \<Rightarrow> page \<times> effect list" where
  "fetchProxima_begin w st areaFiltro discFiltro =
     (st\<lparr>loading := True, error := [], questao := JNull, moduloSelecionado := JNull,
         observacao := []\<rparr>,
      [Fetch (fetchProxima_request w areaFiltro discFiltro)])"

definition fetchProxima_resume ::
  "window option \<Rightarrow> page \<Rightarrow> js_error + response \<Rightarrow> window option \<times> page" where
  "fetchProxima_resume w st outcome =
     (let (w1, res) = apiRequest_settle w outcome
      in case res of
           Inr data \<Rightarrow> (w1, st\<lparr>questao := data, loading := False\<rparr>)
         | Inl err \<Rightarrow>
             (w1, st\<lparr>error := (if message err \<noteq> [] then message err else no_question),
                      loading := False\<rparr>))"

definition fetchProxima ::
  "(request \<Rightarrow> js_error + response) \<Rightarrow> window option \<Rightarrow> page \<Rightarrow> string \<Rightarrow> string
     \<Rightarrow> window option \<times> page \<times> effect list" where
  "fetchProxima fetch w st areaFiltro discFiltro =
     (let (st1, fx) = fetchProxima_begin w st areaFiltro discFiltro;
          (w1, st2) = fetchProxima_resume w st1 (fetch (fetchProxima_request w areaFiltro discFiltro))
      in (w1, st2, fx))"

text \<open>
  The body of a decision that names a module, as \<open>handleSalvar\<close> and
  \<open>handleSalvarCorrecao\<close> build it; \<open>m\<close> is the selected module, which is truthy there.
\<close>

definition decision_body :: "json option \<Rightarrow> json \<Rightarrow> string \<Rightarrow> string \<Rightarrow> json" where
  "decision_body qid m tipo_acao obs =
     stringify
       [(''questao_id'', qid),
        (''habilidade_modulo_id'', get m ''id''),
        (''modulo_escolhido'', get m ''modulo''),
        (''classificacao_trieduc'', get m ''habilidade_descricao''),
        (''descricao_assunto'', get m ''descricao''),
        (''tipo_acao'', Some (JStr tipo_acao)),
        (''observacao'', Some (JStr obs))]"

text \<open>
  \<open>handleSalvar\<close>. The result is the window, the state and the effects when the handler
  has finished; after a successful save the request for the next question is pending,
  since the handler does not wait for \<open>fetchProxima\<close>.
\<close>

definition handleSalvar ::
  "(request \<Rightarrow> js_error + response) \<Rightarrow> window option \<Rightarrow> page
     \<Rightarrow> window option \<times> page \<times> effect list" where
  "handleSalvar fetch w st =
     (if \<not> truthy (moduloSelecionado st) then (w, st, [])
      else
        (let st1 = st\<lparr>saving := True\<rparr>
         in case read_prop (questao st) ''id'' of
              Inl err \<Rightarrow> (w, st1\<lparr>saving := False\<rparr>, [Alert (message err)])
            | Inr qid \<Rightarrow>
                (let (w1, fx, res) =
                       apiRequest fetch w salvar
                         (post (decision_body qid (moduloSelecionado st) ''classificacao_nova''
                                  (observacao st)))
                 in case res of
                      Inl err \<Rightarrow> (w1, st1\<lparr>saving := False\<rparr>, fx @ [Alert (message err)])
                    | Inr data \<Rightarrow>
                        (let (st2, fx2) =
                               fetchProxima_begin w1 st1 (area st) (disciplinaFiltro st)
                         in (w1, st2\<lparr>saving := False\<rparr>, fx @ fx2)))))"

text \<open>The button \<open>Pular\<close>, and the effect that runs when the filter bar reports a change.\<close>

definition pular :: "window option \<Rightarrow> page \<Rightarrow> page \<times> effect list" where
  "pular w st = fetchProxima_begin w st (area st) (disciplinaFiltro st)"

definition onFilterChange ::
  "window option \<Rightarrow> page \<Rightarrow> string \<Rightarrow> string \<Rightarrow> page \<times> effect list" where
  "onFilterChange w st a d =
     (let st1 = st\<lparr>area := a, disciplinaFiltro := d\<rparr>
      in if area st \<noteq> a \<or> disciplinaFiltro st \<noteq> d
         then fetchProxima_begin w st1 a d
         else (st1, []))"

section \<open>The verification page: VerificarPage\<close>

definition no_low_match :: string where
  "no_low_match = ''Nenhuma quest'' @ [CHR 0xC3, CHR 0xA3] @ ''o de baixa similaridade pendente.''"

definition verificar_fetchProxima_request :: "window option \<Rightarrow> string \<Rightarrow> string \<Rightarrow> request" where
  "verificar_fetchProxima_request w areaFiltro discFiltro =
     apiRequest_request w
       \<lparr>path = ''/proxima-low-match'', query = proxima_query areaFiltro discFiltro\<rparr> no_options"

definition verificar_fetchProxima_begin ::
  "window option \<Rightarrow> verificar \<Rightarrow> string \<Rightarrow> string \<Rightarrow> verificar \<times> effect list" where
  "verificar_fetchProxima_begin w st areaFiltro discFiltro =
     (st\<lparr>loading := True, error := [], questao := JNull, moduloSelecionado := JNull,
         observacao := [], isCorrecting := False\<rparr>,
      [Fetch (verificar_fetchProxima_request w areaFiltro discFiltro)])"

definition verificar_fetchProxima_resume ::
  "window option \<Rightarrow> verificar \<Rightarrow> js_error + response \<Rightarrow> window option \<times> verificar" where
  "verificar_fetchProxima_resume w st outcome =
     (let (w1, res) = apiRequest_settle w outcome
      in case res of
           Inr data \<Rightarrow> (w1, st\<lparr>questao := data, loading := False\<rparr>)
         | Inl err \<Rightarrow>
             (w1, st\<lparr>error := (if message err \<noteq> [] then message err else no_low_match),
                      loading := False\<rparr>))"

definition verificar_fetchProxima ::
  "(request \<Rightarrow> js_error + response) \<Rightarrow> window option \<Rightarrow> verificar \<Rightarrow> string \<Rightarrow> string
     \<Rightarrow> window option \<times> verificar \<times> effect list" where
  "verificar_fetchProxima fetch w st areaFiltro discFiltro =
     (let (st1, fx) = verificar_fetchProxima_begin w st areaFiltro discFiltro;
          (w1, st2) = verificar_fetchProxima_resume w st1
                        (fetch (verificar_fetchProxima_request w areaFiltro discFiltro))
      in (w1, st2, fx))"

text \<open>The body of a confirmation: the question, the kind of action and the observation.\<close>

definition confirmacao_body :: "json option \<Rightarrow> string \<Rightarrow> json" where
  "confirmacao_body qid obs =
     stringify
       [(''questao_id'', qid),
        (''tipo_acao'', Some (JStr ''confirmacao'')),
        (''observacao'', Some (JStr obs))]"

definition handleConfirmar ::
  "(request \<Rightarrow> js_error + response) \<Rightarrow> window option \<Rightarrow> verificar
     \<Rightarrow> window option \<times> verificar \<times> effect list" where
  "handleConfirmar fetch w st =
     (let st1 = st\<lparr>saving := True\<rparr>
      in case read_prop (questao st) ''id'' of
           Inl err \<Rightarrow> (w, st1\<lparr>saving := False\<rparr>, [Alert (message err)])
         | Inr qid \<Rightarrow>
             (let (w1, fx, res) =
                    apiRequest fetch w salvar (post (confirmacao_body qid (observacao st)))
              in case res of
                   Inl err \<Rightarrow> (w1, st1\<lparr>saving := False\<rparr>, fx @ [Alert (message err)])
                 | Inr data \<Rightarrow>
                     (let (st2, fx2) =
                            verificar_fetchProxima_begin w1 st1 (area st) (disciplinaFiltro st)
                      in (w1, st2\<lparr>saving := False\<rparr>, fx @ fx2))))"

definition handleSalvarCorrecao ::
  "(request \<Rightarrow> js_error + response) \<Rightarrow> window option \<Rightarrow> verificar
     \<Rightarrow> window option \<times> verificar \<times> effect list" where
  "handleSalvarCorrecao fetch w st =
     (if \<not> truthy (moduloSelecionado st) then (w, st, [])
      else
        (let st1 = st\<lparr>saving := True\<rparr>
         in case read_prop (questao st) ''id'' of
              Inl err \<Rightarrow> (w, st1\<lparr>saving := False\<rparr>, [Alert (message err)])
            | Inr qid \<Rightarrow>
                (let (w1, fx, res) =
                       apiRequest fetch w salvar
                         (post (decision_body qid (moduloSelecionado st) ''correcao''
                                  (observacao st)))
                 in case res of
                      Inl err \<Rightarrow> (w1, st1\<lparr>saving := False\<rparr>, fx @ [Alert (message err)])
                    | Inr data \<Rightarrow>
                        (let (st2, fx2) =
                               verificar_fetchProxima_begin w1 st1 (area st) (disciplinaFiltro st)
                         in (w1, st2\<lparr>saving := False\<rparr>, fx @ fx2)))))"

definition verificar_pular :: "window option \<Rightarrow> verificar \<Rightarrow> verificar \<times> effect list" where
  "verificar_pular w st = verificar_fetchProxima_begin w st (area st) (disciplinaFiltro st)"

definition verificar_onFilterChange ::
  "window option \<Rightarrow> verificar \<Rightarrow> string \<Rightarrow> string \<Rightarrow> verificar \<times> effect list" where
  "verificar_onFilterChange w st a d =
     (let st1 = st\<lparr>area := a, disciplinaFiltro := d\<rparr>
      in if area st \<noteq> a \<or> disciplinaFiltro st \<noteq> d
         then verificar_fetchProxima_begin w st1 a d
         else (st1, []))"

section \<open>Sample inputs\<close>

text \<open>A browser with a session, a question, a module candidate, the two pages holding them,
  and a server that accepts or refuses a request.\<close>

definition sample_window :: "window option" where
  "sample_window = Some \<lparr>localStorage = [''token'' \<mapsto> ''abc''], location_href = ''/classificar''\<rparr>"

definition sample_questao :: json where
  "sample_questao = JObj [(''id'', JNum 42 ''42''), (''similaridade'', JNum (85 / 100) ''0.85'')]"

definition sample_modulo :: json where
  "sample_modulo =
     JObj [(''id'', JNum 7 ''7''), (''modulo'', JStr ''Modulo 7''),
           (''habilidade_descricao'', JStr ''H7''), (''descricao'', JStr ''Funcoes'')]"

definition sample_page :: page where
  "sample_page =
     \<lparr>questao = sample_questao, loading = False, error = [], area = ''Exatas'',
      disciplinaFiltro = [], saving = False, observacao = ''ok'',
      moduloSelecionado = sample_modulo\<rparr>"

definition sample_verificar :: verificar where
  "sample_verificar =
     \<lparr>questao = sample_questao, loading = False, error = [], area = ''Exatas'',
      disciplinaFiltro = [], saving = False, observacao = ''ok'',
      moduloSelecionado = sample_modulo, isCorrecting = True\<rparr>"

definition server_saves :: "request \<Rightarrow> js_error + response" where
  "server_saves q = Inr \<lparr>status = 200, json_body = Inr (JObj [(''ok'', JBool True)])\<rparr>"

definition server_fails :: "request \<Rightarrow> js_error + response" where
  "server_fails q = Inr \<lparr>status = 500, json_body = Inr (JObj [(''detail'', JStr ''Falha ao salvar'')])\<rparr>"

text \<open>The two disciplines of the scenario, two mappings, a teacher with a stored area and
  an administrator.\<close>

definition Matematica :: string where
  "Matematica = ''Matem'' @ [CHR 0xC3, CHR 0xA1] @ ''tica''"

definition Fisica :: string where
  "Fisica = ''F'' @ [CHR 0xC3, CHR 0xAD] @ ''sica''"

definition exatas_mapping :: areas where
  "exatas_mapping = [(''Exatas'', [Matematica, Fisica])]"

definition two_areas :: areas where
  "two_areas = [(''Exatas'', [Matematica, Fisica]), (''Humanas'', [''Historia'', ''Geografia''])]"

definition professor :: "string \<Rightarrow> Usuario" where
  "professor d =
     \<lparr>usuario_id = 1, nome = ''Ana'', email = ''ana@escola.br'', disciplina = d,
      is_admin = False, ativo = True\<rparr>"

definition administrador :: Usuario where
  "administrador =
     \<lparr>usuario_id = 2, nome = ''Rui'', email = ''rui@escola.br'', disciplina = ''Exatas'',
      is_admin = True, ativo = True\<rparr>"

text \<open>A server that answers with status 401: the session has expired.\<close>

definition server_expired :: "request \<Rightarrow> js_error + response" where
  "server_expired q =
     Inr \<lparr>status = 401, json_body = Inr (JObj [(''detail'', JStr ''Token expirado'')])\<rparr>"

section \<open>Properties of the session store\<close>

text \<open>
  C10. Reading the stored profile never throws: \<open>getUsuario\<close> always returns, and it
  returns \<open>null\<close> when the store has no entry \<open>usuario\<close> and when the entry is not valid
  JSON, whatever the store holds and whatever \<open>JSON.parse\<close> does with it.
\<close>

theorem getUsuario_never_throws:
  "(\<exists>u. getUsuario parse w = Inr u)
   \<and> ((\<forall>win. w = Some win \<longrightarrow> localStorage win ''usuario'' = None)
        \<longrightarrow> getUsuario parse w = Inr None)
   \<and> (\<forall>win s e. w = Some win \<and> localStorage win ''usuario'' = Some s \<and> parse s = Inl e
         \<longrightarrow> getUsuario parse w = Inr None)"
  by (auto simp: getUsuario_def split: option.splits sum.splits)

theorem getUsuario_never_throws_witness:
  "getUsuario (\<lambda>s. Inl (SyntaxError ''Unexpected token''))
     (Some \<lparr>localStorage = [''usuario'' \<mapsto> ''{nome:''], location_href = ''/classificar''\<rparr>)
     = Inr None
   \<and> getUsuario (\<lambda>s. Inl (SyntaxError ''Unexpected token''))
       (Some \<lparr>localStorage = Map.empty, location_href = ''/classificar''\<rparr>)
     = Inr None"
  using getUsuario_never_throws [of "\<lambda>s. Inl (SyntaxError ''Unexpected token'')"
          "Some \<lparr>localStorage = [''usuario'' \<mapsto> ''{nome:''], location_href = ''/classificar''\<rparr>"]
        getUsuario_never_throws [of "\<lambda>s. Inl (SyntaxError ''Unexpected token'')"
          "Some \<lparr>localStorage = Map.empty, location_href = ''/classificar''\<rparr>"]
  by simp

section \<open>Properties of the API gateway client\<close>

lemma read_prop_not_null: "v \<noteq> JNull \<Longrightarrow> read_prop v k = Inr (get v k)"
  by (cases v) simp_all

lemma settle_rejected: "apiRequest_settle w (Inl x) = (w, Inl x)"
  by (simp add: apiRequest_settle_def)

lemma settle_ok: "ok r \<Longrightarrow> apiRequest_settle w (Inr r) = (w, json_body r)"
  by (simp add: apiRequest_settle_def ok_def)

lemma settle_window:
  "fst (apiRequest_settle w (Inr r)) =
     (if status r = 401
      then map_option
             (\<lambda>win. win\<lparr>localStorage := (localStorage win)(''token'' := None, ''usuario'' := None),
                        location_href := ''/login''\<rparr>) w
      else w)"
  by (cases w) (simp_all add: apiRequest_settle_def Let_def split: sum.splits option.splits)

lemma settle_not_ok_raises:
  "\<not> ok r \<Longrightarrow> \<exists>err. snd (apiRequest_settle w (Inr r)) = Inl err"
  by (simp add: apiRequest_settle_def Let_def split: sum.splits option.splits)

lemma settle_detail:
  "\<not> ok r \<Longrightarrow> json_body r = Inr b \<Longrightarrow> b \<noteq> JNull \<Longrightarrow> get b ''detail'' = Some d \<Longrightarrow> truthy d
     \<Longrightarrow> snd (apiRequest_settle w (Inr r))
         = (case to_str d of Inl e \<Rightarrow> Inl e | Inr m \<Rightarrow> Inl (Error m))"
  by (simp add: apiRequest_settle_def Let_def read_prop_not_null split: sum.splits)

lemma settle_generic_unparsed:
  "\<not> ok r \<Longrightarrow> json_body r = Inl x
     \<Longrightarrow> snd (apiRequest_settle w (Inr r)) = Inl (Error generic_message)"
  by (simp add: apiRequest_settle_def Let_def)

lemma settle_generic_falsy:
  "\<not> ok r \<Longrightarrow> json_body r = Inr b \<Longrightarrow> b \<noteq> JNull
     \<Longrightarrow> get b ''detail'' = None \<or> (\<exists>d. get b ''detail'' = Some d \<and> \<not> truthy d)
     \<Longrightarrow> snd (apiRequest_settle w (Inr r)) = Inl (Error generic_message)"
  by (auto simp add: apiRequest_settle_def Let_def read_prop_not_null)

lemma apiRequest_unfold:
  "apiRequest fetch w e options =
     (fst (apiRequest_settle w (fetch (apiRequest_request w e options))),
      [Fetch (apiRequest_request w e options)],
      snd (apiRequest_settle w (fetch (apiRequest_request w e options))))"
  by (simp add: apiRequest_def Let_def split: prod.splits)

text \<open>
  C2, as the code has it. A call hands one request to \<open>fetch\<close> and never a second one.
  When the response has status 401 the entries \<open>token\<close> and \<open>usuario\<close> are removed from
  the store and the page is sent to \<open>/login\<close>. When the status is not a success the call
  throws. When the body is a JSON value other than \<open>null\<close> whose \<open>detail\<close> is truthy,
  the error carries the text that \<open>detail\<close> converts to, and where the conversion itself
  throws (an object with an own \<open>toString\<close>) its TypeError leaves the call instead. When
  the body is not JSON or has no \<open>detail\<close> or a falsy one, the error carries the generic
  message. When the status is a success and the body is JSON, the parsed body is returned
  and the window is as before.
\<close>

theorem apiRequest_outcomes:
  assumes "fetch (apiRequest_request w e options) = Inr r"
  shows "(status r = 401 \<longrightarrow>
            fst (apiRequest fetch w e options) =
              map_option
                (\<lambda>win. win\<lparr>localStorage := (localStorage win)(''token'' := None, ''usuario'' := None),
                           location_href := ''/login''\<rparr>) w)
         \<and> fst (snd (apiRequest fetch w e options)) = [Fetch (apiRequest_request w e options)]
         \<and> (\<not> ok r \<longrightarrow>
              (\<exists>err. snd (snd (apiRequest fetch w e options)) = Inl err)
              \<and> (\<forall>b d. json_body r = Inr b \<and> b \<noteq> JNull \<and> get b ''detail'' = Some d \<and> truthy d
                    \<longrightarrow> (\<forall>m. to_str d = Inr m
                           \<longrightarrow> snd (snd (apiRequest fetch w e options)) = Inl (Error m))
                        \<and> (\<forall>x. to_str d = Inl x
                             \<longrightarrow> snd (snd (apiRequest fetch w e options)) = Inl x))
              \<and> ((\<exists>x. json_body r = Inl x)
                  \<or> (\<exists>b. json_body r = Inr b \<and> b \<noteq> JNull
                         \<and> (get b ''detail'' = None
                             \<or> (\<exists>d. get b ''detail'' = Some d \<and> \<not> truthy d)))
                 \<longrightarrow> snd (snd (apiRequest fetch w e options)) = Inl (Error generic_message)))
         \<and> (ok r \<longrightarrow>
              (\<forall>j. json_body r = Inr j \<longrightarrow>
                 apiRequest fetch w e options
                   = (w, [Fetch (apiRequest_request w e options)], Inr j)))"
proof (intro conjI impI allI)
  show "fst (snd (apiRequest fetch w e options)) = [Fetch (apiRequest_request w e options)]"
    by (simp add: apiRequest_unfold)
next
  assume "status r = 401"
  then show "fst (apiRequest fetch w e options) =
      map_option
        (\<lambda>win. win\<lparr>localStorage := (localStorage win)(''token'' := None, ''usuario'' := None),
                   location_href := ''/login''\<rparr>) w"
    using assms by (simp add: apiRequest_unfold settle_window)
next
  assume "\<not> ok r"
  then show "\<exists>err. snd (snd (apiRequest fetch w e options)) = Inl err"
    using assms settle_not_ok_raises [of r w] by (simp add: apiRequest_unfold)
next
  fix b d m
  assume "\<not> ok r"
    and "json_body r = Inr b \<and> b \<noteq> JNull \<and> get b ''detail'' = Some d \<and> truthy d"
    and "to_str d = Inr m"
  then show "snd (snd (apiRequest fetch w e options)) = Inl (Error m)"
    using assms settle_detail [of r b d w] by (simp add: apiRequest_unfold)
next
  fix b d x
  assume "\<not> ok r"
    and "json_body r = Inr b \<and> b \<noteq> JNull \<and> get b ''detail'' = Some d \<and> truthy d"
    and "to_str d = Inl x"
  then show "snd (snd (apiRequest fetch w e options)) = Inl x"
    using assms settle_detail [of r b d w] by (simp add: apiRequest_unfold)
next
  assume n: "\<not> ok r"
    and h: "(\<exists>x. json_body r = Inl x)
            \<or> (\<exists>b. json_body r = Inr b \<and> b \<noteq> JNull
                   \<and> (get b ''detail'' = None \<or> (\<exists>d. get b ''detail'' = Some d \<and> \<not> truthy d)))"
  from h have "snd (apiRequest_settle w (Inr r)) = Inl (Error generic_message)"
    using n settle_generic_unparsed settle_generic_falsy by blast
  then show "snd (snd (apiRequest fetch w e options)) = Inl (Error generic_message)"
    using assms by (simp add: apiRequest_unfold)
next
  fix j
  assume "ok r" and "json_body r = Inr j"
  then show "apiRequest fetch w e options = (w, [Fetch (apiRequest_request w e options)], Inr j)"
    using assms by (simp add: apiRequest_unfold settle_ok)
qed

theorem apiRequest_outcomes_witness:
  "apiRequest
      (\<lambda>q. Inr \<lparr>status = 401, json_body = Inr (JObj [(''detail'', JStr ''Token expirado'')])\<rparr>)
      (Some \<lparr>localStorage = [''token'' \<mapsto> ''abc'', ''usuario'' \<mapsto> ''{}''],
             location_href = ''/classificar''\<rparr>)
      salvar no_options
    = (Some \<lparr>localStorage = Map.empty, location_href = ''/login''\<rparr>,
       [Fetch \<lparr>target = salvar,
               init = \<lparr>http_method = None, body = None,
                       headers = [(''Content-Type'', ''application/json''),
                                  (''Authorization'', ''Bearer abc'')]\<rparr>\<rparr>],
       Inl (Error ''Token expirado''))
   \<and> snd (snd (apiRequest
                  (\<lambda>q. Inr \<lparr>status = 500, json_body = Inl (SyntaxError ''Unexpected token'')\<rparr>)
                  None salvar no_options))
       = Inl (Error generic_message)
   \<and> apiRequest (\<lambda>q. Inr \<lparr>status = 200, json_body = Inr (JObj [(''id'', JNum 42 ''42'')])\<rparr>)
        None salvar no_options
       = (None, [Fetch (apiRequest_request None salvar no_options)],
          Inr (JObj [(''id'', JNum 42 ''42'')]))
   \<and> snd (snd (apiRequest
                  (\<lambda>q. Inr \<lparr>status = 422,
                              json_body = Inr (JObj [(''detail'',
                                                      JArr [JObj [(''toString'', JStr ''x'')]])])\<rparr>)
                  None salvar no_options))
       = Inl (TypeError no_primitive)"
  using apiRequest_outcomes
          [of "\<lambda>q. Inr \<lparr>status = 401,
                          json_body = Inr (JObj [(''detail'', JStr ''Token expirado'')])\<rparr>"
              "Some \<lparr>localStorage = [''token'' \<mapsto> ''abc'', ''usuario'' \<mapsto> ''{}''],
                     location_href = ''/classificar''\<rparr>"
              salvar no_options
              "\<lparr>status = 401, json_body = Inr (JObj [(''detail'', JStr ''Token expirado'')])\<rparr>"]
        apiRequest_outcomes
          [of "\<lambda>q. Inr \<lparr>status = 500, json_body = Inl (SyntaxError ''Unexpected token'')\<rparr>"
              None salvar no_options
              "\<lparr>status = 500, json_body = Inl (SyntaxError ''Unexpected token'')\<rparr>"]
        apiRequest_outcomes
          [of "\<lambda>q. Inr \<lparr>status = 200, json_body = Inr (JObj [(''id'', JNum 42 ''42'')])\<rparr>"
              None salvar no_options
              "\<lparr>status = 200, json_body = Inr (JObj [(''id'', JNum 42 ''42'')])\<rparr>"]
        apiRequest_outcomes
          [of "\<lambda>q. Inr \<lparr>status = 422,
                          json_body = Inr (JObj [(''detail'',
                                                  JArr [JObj [(''toString'', JStr ''x'')]])])\<rparr>"
              None salvar no_options
              "\<lparr>status = 422,
                json_body = Inr (JObj [(''detail'', JArr [JObj [(''toString'', JStr ''x'')]])])\<rparr>"]
  by (simp add: ok_def apiRequest_unfold apiRequest_request_def no_options_def salvar_def
        apiRequest_settle_def)

text \<open>
  C2 as it is stated fails where \<open>detail\<close> is present and falsy: for the status 400 and
  the body \<open>{"detail": ""}\<close> the error carries the generic message, not the detail.
\<close>

theorem apiRequest_empty_detail:
  "apiRequest_settle None
       (Inr \<lparr>status = 400, json_body = Inr (JObj [(''detail'', JStr [])])\<rparr>)
     = (None, Inl (Error generic_message))
   \<and> to_str (JStr []) = Inr []
   \<and> generic_message \<noteq> []"
  by (simp add: apiRequest_settle_def ok_def generic_message_def)

section \<open>Properties of the two workflows\<close>

lemma handleSalvar_no_module:
  "\<not> truthy (moduloSelecionado st) \<Longrightarrow> handleSalvar fetch w st = (w, st, [])"
  by (simp add: handleSalvar_def)

lemma handleSalvarCorrecao_no_module:
  "\<not> truthy (moduloSelecionado v) \<Longrightarrow> handleSalvarCorrecao fetch w v = (w, v, [])"
  by (simp add: handleSalvarCorrecao_def)

lemma handleConfirmar_unfold:
  "questao v \<noteq> JNull \<Longrightarrow>
   handleConfirmar fetch w v =
     (let req = apiRequest_request w salvar (post (confirmacao_body (get (questao v) ''id'') (observacao v)));
          sw = apiRequest_settle w (fetch req)
      in case snd sw of
           Inl err \<Rightarrow> (fst sw, v\<lparr>saving := False\<rparr>, [Fetch req, Alert (message err)])
         | Inr data \<Rightarrow>
             (fst sw,
              fst (verificar_fetchProxima_begin (fst sw) (v\<lparr>saving := True\<rparr>) (area v) (disciplinaFiltro v))\<lparr>saving := False\<rparr>,
              Fetch req # snd (verificar_fetchProxima_begin (fst sw) (v\<lparr>saving := True\<rparr>) (area v) (disciplinaFiltro v))))"
  by (simp add: handleConfirmar_def read_prop_not_null apiRequest_unfold Let_def split: sum.splits prod.splits)

lemma handleSalvar_unfold:
  "truthy (moduloSelecionado st) \<Longrightarrow> questao st \<noteq> JNull \<Longrightarrow>
   handleSalvar fetch w st =
     (let req = apiRequest_request w salvar
                  (post (decision_body (get (questao st) ''id'') (moduloSelecionado st) ''classificacao_nova'' (observacao st)));
          sw = apiRequest_settle w (fetch req)
      in case snd sw of
           Inl err \<Rightarrow> (fst sw, st\<lparr>saving := False\<rparr>, [Fetch req, Alert (message err)])
         | Inr data \<Rightarrow>
             (fst sw,
              fst (fetchProxima_begin (fst sw) (st\<lparr>saving := True\<rparr>) (area st) (disciplinaFiltro st))\<lparr>saving := False\<rparr>,
              Fetch req # snd (fetchProxima_begin (fst sw) (st\<lparr>saving := True\<rparr>) (area st) (disciplinaFiltro st))))"
  by (simp add: handleSalvar_def read_prop_not_null apiRequest_unfold Let_def split: sum.splits prod.splits)

lemma handleSalvarCorrecao_unfold:
  "truthy (moduloSelecionado v) \<Longrightarrow> questao v \<noteq> JNull \<Longrightarrow>
   handleSalvarCorrecao fetch w v =
     (let req = apiRequest_request w salvar
                  (post (decision_body (get (questao v) ''id'') (moduloSelecionado v) ''correcao'' (observacao v)));
          sw = apiRequest_settle w (fetch req)
      in case snd sw of
           Inl err \<Rightarrow> (fst sw, v\<lparr>saving := False\<rparr>, [Fetch req, Alert (message err)])
         | Inr data \<Rightarrow>
             (fst sw,
              fst (verificar_fetchProxima_begin (fst sw) (v\<lparr>saving := True\<rparr>) (area v) (disciplinaFiltro v))\<lparr>saving := False\<rparr>,
              Fetch req # snd (verificar_fetchProxima_begin (fst sw) (v\<lparr>saving := True\<rparr>) (area v) (disciplinaFiltro v))))"
  by (simp add: handleSalvarCorrecao_def read_prop_not_null apiRequest_unfold Let_def split: sum.splits prod.splits)

lemma confirmacao_body_no_module:
  "get (confirmacao_body qid obs) ''habilidade_modulo_id'' = None
   \<and> get (confirmacao_body qid obs) ''modulo_escolhido'' = None
   \<and> get (confirmacao_body qid obs) ''classificacao_trieduc'' = None
   \<and> get (confirmacao_body qid obs) ''descricao_assunto'' = None
   \<and> get (confirmacao_body qid obs) ''tipo_acao'' = Some (JStr ''confirmacao'')"
  by (cases qid) (simp_all add: confirmacao_body_def)

lemma handleConfirmar_first_effect:
  "questao v \<noteq> JNull \<Longrightarrow>
   \<exists>fx. snd (snd (handleConfirmar fetch w v)) =
     Fetch (apiRequest_request w salvar (post (confirmacao_body (get (questao v) ''id'') (observacao v)))) # fx"
  by (simp add: handleConfirmar_unfold Let_def split: sum.splits)


lemma fetchProxima_request_shape:
  "target (fetchProxima_request w a d) = \<lparr>path = ''/proxima'', query = proxima_query a d\<rparr>
   \<and> http_method (init (fetchProxima_request w a d)) = None
   \<and> body (init (fetchProxima_request w a d)) = None"
  by (simp add: fetchProxima_request_def apiRequest_request_def no_options_def Let_def)

lemma verificar_fetchProxima_request_shape:
  "target (verificar_fetchProxima_request w a d) = \<lparr>path = ''/proxima-low-match'', query = proxima_query a d\<rparr>
   \<and> http_method (init (verificar_fetchProxima_request w a d)) = None
   \<and> body (init (verificar_fetchProxima_request w a d)) = None"
  by (simp add: verificar_fetchProxima_request_def apiRequest_request_def no_options_def Let_def)

lemma proxima_query_filter:
  "proxima_query a d = filter (\<lambda>kv. snd kv \<noteq> []) [(''area'', a), (''disciplina_id'', d)]"
  by (simp add: proxima_query_def)


text \<open>
  C1. In every state, \<open>handleSalvar\<close> and \<open>handleSalvarCorrecao\<close> return at once,
  with no request and no change, when the selected module is \<open>null\<close>. In every state
  that holds a question, whatever the selected module, \<open>handleConfirmar\<close> first hands to
  \<open>fetch\<close> the POST of a confirmation, whose body has none of the properties that refer
  to a module.
\<close>

theorem module_required:
  "(moduloSelecionado st = JNull \<longrightarrow> handleSalvar fetch w st = (w, st, []))
   \<and> (moduloSelecionado v = JNull \<longrightarrow> handleSalvarCorrecao fetch w v = (w, v, []))
   \<and> (questao v \<noteq> JNull \<longrightarrow>
        (\<exists>fx. snd (snd (handleConfirmar fetch w v)) =
           Fetch (apiRequest_request w salvar
                    (post (confirmacao_body (get (questao v) ''id'') (observacao v)))) # fx)
        \<and> get (confirmacao_body (get (questao v) ''id'') (observacao v)) ''habilidade_modulo_id'' = None
        \<and> get (confirmacao_body (get (questao v) ''id'') (observacao v)) ''modulo_escolhido'' = None
        \<and> get (confirmacao_body (get (questao v) ''id'') (observacao v)) ''classificacao_trieduc'' = None
        \<and> get (confirmacao_body (get (questao v) ''id'') (observacao v)) ''descricao_assunto'' = None
        \<and> get (confirmacao_body (get (questao v) ''id'') (observacao v)) ''tipo_acao''
            = Some (JStr ''confirmacao''))"
  using handleConfirmar_first_effect [of v fetch w] confirmacao_body_no_module
  by (simp add: handleSalvar_no_module handleSalvarCorrecao_no_module)

theorem module_required_witness:
  "handleSalvar server_saves sample_window (sample_page\<lparr>moduloSelecionado := JNull\<rparr>)
     = (sample_window, sample_page\<lparr>moduloSelecionado := JNull\<rparr>, [])
   \<and> handleSalvarCorrecao server_saves sample_window (sample_verificar\<lparr>moduloSelecionado := JNull\<rparr>)
     = (sample_window, sample_verificar\<lparr>moduloSelecionado := JNull\<rparr>, [])
   \<and> snd (snd (handleConfirmar server_saves sample_window
                  (sample_verificar\<lparr>moduloSelecionado := JNull, isCorrecting := False\<rparr>)))
     = [Fetch \<lparr>target = \<lparr>path = ''/salvar'', query = []\<rparr>,
               init = \<lparr>http_method = Some ''POST'',
                       body = Some (JObj [(''questao_id'', JNum 42 ''42''),
                                          (''tipo_acao'', JStr ''confirmacao''),
                                          (''observacao'', JStr ''ok'')]),
                       headers = [(''Content-Type'', ''application/json''),
                                  (''Authorization'', ''Bearer abc'')]\<rparr>\<rparr>,
        Fetch \<lparr>target = \<lparr>path = ''/proxima-low-match'', query = [(''area'', ''Exatas'')]\<rparr>,
               init = \<lparr>http_method = None, body = None,
                       headers = [(''Content-Type'', ''application/json''),
                                  (''Authorization'', ''Bearer abc'')]\<rparr>\<rparr>]"
  using module_required [of "sample_page\<lparr>moduloSelecionado := JNull\<rparr>" server_saves sample_window
          "sample_verificar\<lparr>moduloSelecionado := JNull\<rparr>"]
        module_required [of "sample_page" server_saves sample_window
          "sample_verificar\<lparr>moduloSelecionado := JNull, isCorrecting := False\<rparr>"]
  by (simp add: sample_page_def sample_verificar_def sample_window_def sample_questao_def
        server_saves_def handleConfirmar_unfold apiRequest_settle_def ok_def Let_def
        verificar_fetchProxima_begin_def verificar_fetchProxima_request_def apiRequest_request_def
        post_def salvar_def confirmacao_body_def no_options_def proxima_query_def)

lemma settle_window_cases:
  "fst (apiRequest_settle w outcome) =
     (case outcome of
        Inl x \<Rightarrow> w
      | Inr r \<Rightarrow> if status r = 401 then map_option logged_out w else w)"
  by (cases w)
     (simp_all add: apiRequest_settle_def Let_def logged_out_def split: sum.splits option.splits)

text \<open>
  C6, as the code has it. When the save fails (\<open>apiRequest\<close> throws), each of the three
  handlers shows the message of the error in an \<open>alert\<close>, issues no further request,
  and leaves the state variables of the page as they were but for \<open>saving\<close>, which is
  false: the question, the selected module and the observation are as before. The window
  is as before too, so that the same save can be tried again, unless the failure is a
  response with status 401: then the token and the user are removed from the store and
  the page is sent to \<open>/login\<close>.
\<close>

theorem failed_save_keeps_state:
  "(truthy (moduloSelecionado st) \<and> questao st \<noteq> JNull
      \<and> snd (snd (apiRequest fetch w salvar
                (post (decision_body (get (questao st) ''id'') (moduloSelecionado st)
                         ''classificacao_nova'' (observacao st))))) = Inl err
    \<longrightarrow> handleSalvar fetch w st =
          (case fetch (apiRequest_request w salvar
                         (post (decision_body (get (questao st) ''id'') (moduloSelecionado st)
                                  ''classificacao_nova'' (observacao st)))) of
             Inl x \<Rightarrow> w
           | Inr r \<Rightarrow> if status r = 401 then map_option logged_out w else w,
           st\<lparr>saving := False\<rparr>,
           [Fetch (apiRequest_request w salvar
                     (post (decision_body (get (questao st) ''id'') (moduloSelecionado st)
                              ''classificacao_nova'' (observacao st)))),
            Alert (message err)]))
   \<and> (questao v \<noteq> JNull
      \<and> snd (snd (apiRequest fetch w salvar
                (post (confirmacao_body (get (questao v) ''id'') (observacao v))))) = Inl err
    \<longrightarrow> handleConfirmar fetch w v =
          (case fetch (apiRequest_request w salvar
                         (post (confirmacao_body (get (questao v) ''id'') (observacao v)))) of
             Inl x \<Rightarrow> w
           | Inr r \<Rightarrow> if status r = 401 then map_option logged_out w else w,
           v\<lparr>saving := False\<rparr>,
           [Fetch (apiRequest_request w salvar
                     (post (confirmacao_body (get (questao v) ''id'') (observacao v)))),
            Alert (message err)]))
   \<and> (truthy (moduloSelecionado v) \<and> questao v \<noteq> JNull
      \<and> snd (snd (apiRequest fetch w salvar
                (post (decision_body (get (questao v) ''id'') (moduloSelecionado v)
                         ''correcao'' (observacao v))))) = Inl err
    \<longrightarrow> handleSalvarCorrecao fetch w v =
          (case fetch (apiRequest_request w salvar
                         (post (decision_body (get (questao v) ''id'') (moduloSelecionado v)
                                  ''correcao'' (observacao v)))) of
             Inl x \<Rightarrow> w
           | Inr r \<Rightarrow> if status r = 401 then map_option logged_out w else w,
           v\<lparr>saving := False\<rparr>,
           [Fetch (apiRequest_request w salvar
                     (post (decision_body (get (questao v) ''id'') (moduloSelecionado v)
                              ''correcao'' (observacao v)))),
            Alert (message err)]))"
  by (simp add: handleSalvar_unfold handleConfirmar_unfold handleSalvarCorrecao_unfold
        apiRequest_unfold Let_def settle_window_cases)

theorem failed_save_keeps_state_witness:
  "handleSalvar server_fails sample_window sample_page
     = (sample_window, sample_page,
        [Fetch (apiRequest_request sample_window salvar
                  (post (decision_body (Some (JNum 42 ''42'')) sample_modulo
                           ''classificacao_nova'' ''ok''))),
         Alert ''Falha ao salvar''])
   \<and> handleConfirmar server_fails sample_window sample_verificar
     = (sample_window, sample_verificar,
        [Fetch (apiRequest_request sample_window salvar
                  (post (confirmacao_body (Some (JNum 42 ''42'')) ''ok''))),
         Alert ''Falha ao salvar''])
   \<and> handleSalvarCorrecao server_fails sample_window sample_verificar
     = (sample_window, sample_verificar,
        [Fetch (apiRequest_request sample_window salvar
                  (post (decision_body (Some (JNum 42 ''42'')) sample_modulo ''correcao'' ''ok''))),
         Alert ''Falha ao salvar''])
   \<and> handleConfirmar server_expired sample_window sample_verificar
     = (Some \<lparr>localStorage = Map.empty, location_href = ''/login''\<rparr>, sample_verificar,
        [Fetch (apiRequest_request sample_window salvar
                  (post (confirmacao_body (Some (JNum 42 ''42'')) ''ok''))),
         Alert ''Token expirado''])"
  using failed_save_keeps_state [of sample_page server_fails sample_window
          "Error ''Falha ao salvar''" sample_verificar]
        failed_save_keeps_state [of sample_page server_expired sample_window
          "Error ''Token expirado''" sample_verificar]
  by (simp add: sample_page_def sample_verificar_def sample_questao_def sample_modulo_def
        sample_window_def server_fails_def server_expired_def logged_out_def
        handleSalvar_unfold handleConfirmar_unfold handleSalvarCorrecao_unfold
        apiRequest_unfold apiRequest_settle_def ok_def Let_def)

text \<open>
  C6 as it is stated fails for a response with status 401: the save fails, the session is
  cleared and the page is sent to \<open>/login\<close>, so the workflow does not stay ready for
  another try.
\<close>

theorem expired_session_save:
  "handleSalvar server_expired sample_window sample_page
     = (Some \<lparr>localStorage = Map.empty, location_href = ''/login''\<rparr>, sample_page,
        [Fetch (apiRequest_request sample_window salvar
                  (post (decision_body (Some (JNum 42 ''42'')) sample_modulo
                           ''classificacao_nova'' ''ok''))),
         Alert ''Token expirado''])
   \<and> getToken sample_window = Some ''abc''
   \<and> getToken (fst (handleSalvar server_expired sample_window sample_page)) = None"
  by (simp add: sample_page_def sample_questao_def sample_modulo_def
        sample_window_def server_expired_def getToken_def
        handleSalvar_unfold apiRequest_unfold apiRequest_settle_def ok_def Let_def)


lemma not_a_save:
  "fetchProxima_request w a d \<noteq> apiRequest_request w' salvar (post b)
   \<and> verificar_fetchProxima_request w a d \<noteq> apiRequest_request w' salvar (post b)"
  by (simp add: fetchProxima_request_def verificar_fetchProxima_request_def apiRequest_request_def
        salvar_def post_def no_options_def Let_def)

text \<open>
  C7. The skip button and a change of the filter values leave the page loading with the
  question, the selected module and the observation cleared (and, in the verification
  page, not correcting); the skip keeps the filter values and the change adopts the new
  ones. The only request is a GET of the next question, never the POST of a decision, and
  its query has the area and the discipline that are not empty, in that order.
\<close>

theorem skip_and_filter_change:
  "pular w st =
     (st\<lparr>loading := True, error := [], questao := JNull, moduloSelecionado := JNull,
         observacao := []\<rparr>,
      [Fetch (fetchProxima_request w (area st) (disciplinaFiltro st))])
   \<and> verificar_pular w v =
     (v\<lparr>loading := True, error := [], questao := JNull, moduloSelecionado := JNull,
        observacao := [], isCorrecting := False\<rparr>,
      [Fetch (verificar_fetchProxima_request w (area v) (disciplinaFiltro v))])
   \<and> (area st \<noteq> a \<or> disciplinaFiltro st \<noteq> d \<longrightarrow>
        onFilterChange w st a d =
          (st\<lparr>area := a, disciplinaFiltro := d, loading := True, error := [], questao := JNull,
              moduloSelecionado := JNull, observacao := []\<rparr>,
           [Fetch (fetchProxima_request w a d)]))
   \<and> (area v \<noteq> a \<or> disciplinaFiltro v \<noteq> d \<longrightarrow>
        verificar_onFilterChange w v a d =
          (v\<lparr>area := a, disciplinaFiltro := d, loading := True, error := [], questao := JNull,
             moduloSelecionado := JNull, observacao := [], isCorrecting := False\<rparr>,
           [Fetch (verificar_fetchProxima_request w a d)]))
   \<and> target (fetchProxima_request w a d) = \<lparr>path = ''/proxima'', query = proxima_query a d\<rparr>
   \<and> http_method (init (fetchProxima_request w a d)) = None
   \<and> body (init (fetchProxima_request w a d)) = None
   \<and> target (verificar_fetchProxima_request w a d)
       = \<lparr>path = ''/proxima-low-match'', query = proxima_query a d\<rparr>
   \<and> http_method (init (verificar_fetchProxima_request w a d)) = None
   \<and> body (init (verificar_fetchProxima_request w a d)) = None
   \<and> proxima_query a d = filter (\<lambda>kv. snd kv \<noteq> []) [(''area'', a), (''disciplina_id'', d)]
   \<and> fetchProxima_request w a d \<noteq> apiRequest_request w' salvar (post b)
   \<and> verificar_fetchProxima_request w a d \<noteq> apiRequest_request w' salvar (post b)"
  using fetchProxima_request_shape [of w a d] verificar_fetchProxima_request_shape [of w a d]
        proxima_query_filter [of a d] not_a_save [of w a d w' b]
  by (simp add: pular_def verificar_pular_def onFilterChange_def verificar_onFilterChange_def
        fetchProxima_begin_def verificar_fetchProxima_begin_def Let_def)

theorem skip_and_filter_change_witness:
  "onFilterChange sample_window sample_page ''Humanas'' []
     = (sample_page\<lparr>area := ''Humanas'', loading := True, questao := JNull,
                    moduloSelecionado := JNull, observacao := []\<rparr>,
        [Fetch \<lparr>target = \<lparr>path = ''/proxima'', query = [(''area'', ''Humanas'')]\<rparr>,
                init = \<lparr>http_method = None, body = None,
                        headers = [(''Content-Type'', ''application/json''),
                                   (''Authorization'', ''Bearer abc'')]\<rparr>\<rparr>])
   \<and> snd (verificar_onFilterChange sample_window sample_verificar [] [])
     = [Fetch \<lparr>target = \<lparr>path = ''/proxima-low-match'', query = []\<rparr>,
               init = \<lparr>http_method = None, body = None,
                       headers = [(''Content-Type'', ''application/json''),
                                  (''Authorization'', ''Bearer abc'')]\<rparr>\<rparr>]"
  using skip_and_filter_change [of sample_window sample_page sample_verificar "''Humanas''" "[]"]
        skip_and_filter_change [of sample_window sample_page sample_verificar "[]" "[]"]
  by (simp add: sample_page_def sample_verificar_def sample_window_def
        fetchProxima_request_def verificar_fetchProxima_request_def apiRequest_request_def
        no_options_def proxima_query_def)

section \<open>Properties of the filter selector\<close>

lemma scan_areas_find:
  "scan_areas d m = map_option fst (find (\<lambda>kv. d \<in> set (snd kv)) m)"
  by (induction m) auto

lemma scan_areas_key: "scan_areas d m = Some a \<Longrightarrow> a \<in> fst ` set m"
  by (induction m) (auto split: if_splits)

lemma scan_areas_None: "scan_areas d m = None \<longleftrightarrow> (\<forall>kv \<in> set m. d \<notin> set (snd kv))"
  by (induction d m rule: scan_areas.induct) simp_all

lemma filter_eq_distinct: "distinct xs \<Longrightarrow> a \<in> set xs \<Longrightarrow> filter (\<lambda>y. y = a) xs = [a]"
  by (induction xs) (auto simp: filter_empty_conv)

lemma filter_eq_absent: "a \<notin> set xs \<Longrightarrow> filter (\<lambda>y. y = a) xs = []"
  by (induction xs) auto

lemma map_of_key: "map_of m k \<noteq> None \<longleftrightarrow> k \<in> fst ` set m"
  by (simp add: map_of_eq_None_iff)

lemma loadFilters_mapping:
  "areasMapping (fst (loadFilters u (Inr m) st)) = m"
  by (simp add: loadFilters_def Let_def split: option.splits)

lemma loadFilters_disciplinaId:
  "disciplinaId (fst (loadFilters u res st)) = disciplinaId st"
  by (simp add: loadFilters_def Let_def split: option.splits sum.splits)

lemma loadFilters_area:
  "disciplina x \<noteq> [] \<Longrightarrow>
   FilterBar.area (fst (loadFilters (Some x) (Inr m) st)) =
     (if disciplina x \<in> fst ` set m \<or> disciplina x \<in> set Object_prototype then disciplina x
      else case scan_areas (disciplina x) m of None \<Rightarrow> FilterBar.area st | Some a \<Rightarrow> a)"
  by (auto simp add: loadFilters_def Let_def map_of_eq_None_iff split: option.splits)

lemma areaOptions_restricted:
  "\<not> unrestricted u \<Longrightarrow>
   areaOptions u st = map (\<lambda>a. (a, a)) (filter (\<lambda>y. y = FilterBar.area st) (map fst (areasMapping st)))"
  by (simp add: areaOptions_def)

text \<open>
  C3, as the code has it. For a user who is not an administrator and has a stored value,
  and a mapping (an object, so with each key once), after \<open>loadFilters\<close>: when the
  stored value is a key, it is the selected area and the selectable areas are exactly
  that key. When it is not a key but the name of a member that objects inherit, it is
  the selected area, no area is selectable and the render throws. Otherwise, when some
  area lists it as a discipline, the first such area in iteration order is selected and
  is exactly what is selectable; and when no area lists it, the selected area stays empty
  and, the empty text not being a key, no area is selectable.
\<close>

theorem restricted_area_options:
  assumes "disciplina x \<noteq> []" and "\<not> is_admin x" and "distinct (map fst m)"
  shows "(disciplina x \<in> fst ` set m \<longrightarrow>
            FilterBar.area (fst (loadFilters (Some x) (Inr m) FilterBar_init)) = disciplina x
            \<and> areaOptions (Some x) (fst (loadFilters (Some x) (Inr m) FilterBar_init))
                = [(disciplina x, disciplina x)])
         \<and> (disciplina x \<notin> fst ` set m \<and> disciplina x \<in> set Object_prototype \<longrightarrow>
            FilterBar.area (fst (loadFilters (Some x) (Inr m) FilterBar_init)) = disciplina x
            \<and> areaOptions (Some x) (fst (loadFilters (Some x) (Inr m) FilterBar_init)) = []
            \<and> render_throws (fst (loadFilters (Some x) (Inr m) FilterBar_init)))
         \<and> (\<forall>r ds. disciplina x \<notin> fst ` set m \<and> disciplina x \<notin> set Object_prototype
                  \<and> find (\<lambda>kv. disciplina x \<in> set (snd kv)) m = Some (r, ds)
               \<longrightarrow> FilterBar.area (fst (loadFilters (Some x) (Inr m) FilterBar_init)) = r
                   \<and> areaOptions (Some x) (fst (loadFilters (Some x) (Inr m) FilterBar_init))
                       = [(r, r)])
         \<and> (disciplina x \<notin> fst ` set m \<and> disciplina x \<notin> set Object_prototype
               \<and> (\<forall>kv \<in> set m. disciplina x \<notin> set (snd kv))
             \<longrightarrow> FilterBar.area (fst (loadFilters (Some x) (Inr m) FilterBar_init)) = []
                 \<and> ([] \<notin> fst ` set m \<longrightarrow>
                      areaOptions (Some x) (fst (loadFilters (Some x) (Inr m) FilterBar_init))
                        = []))"
proof -
  have r: "\<not> unrestricted (Some x)"
    using assms by (simp add: unrestricted_def)
  let ?st = "fst (loadFilters (Some x) (Inr m) FilterBar_init)"
  have opts: "areaOptions (Some x) ?st
                = map (\<lambda>a. (a, a)) (filter (\<lambda>y. y = FilterBar.area ?st) (map fst m))"
    using r by (simp add: areaOptions_restricted loadFilters_mapping)
  have c1: "disciplina x \<in> fst ` set m \<Longrightarrow>
              FilterBar.area ?st = disciplina x
              \<and> areaOptions (Some x) ?st = [(disciplina x, disciplina x)]"
  proof -
    assume k: "disciplina x \<in> fst ` set m"
    then have a: "FilterBar.area ?st = disciplina x"
      using assms(1) by (simp add: loadFilters_area)
    then show ?thesis
      using opts k assms(3) by (simp add: filter_eq_distinct)
  qed
  have c2: "disciplina x \<notin> fst ` set m \<and> disciplina x \<in> set Object_prototype \<Longrightarrow>
              FilterBar.area ?st = disciplina x \<and> areaOptions (Some x) ?st = []
              \<and> render_throws ?st"
  proof -
    assume h: "disciplina x \<notin> fst ` set m \<and> disciplina x \<in> set Object_prototype"
    then have a: "FilterBar.area ?st = disciplina x"
      using assms(1) by (simp add: loadFilters_area)
    have n: "map_of m (disciplina x) = None"
      using h by (simp add: map_of_eq_None_iff)
    have "areaOptions (Some x) ?st = []"
      using opts a h by (simp add: filter_eq_absent)
    moreover have "render_throws ?st"
      using a h n assms(1) by (simp add: render_throws_def loadFilters_mapping)
    ultimately show ?thesis using a by simp
  qed
  have c3: "\<And>r ds. disciplina x \<notin> fst ` set m \<and> disciplina x \<notin> set Object_prototype
                  \<and> find (\<lambda>kv. disciplina x \<in> set (snd kv)) m = Some (r, ds) \<Longrightarrow>
              FilterBar.area ?st = r \<and> areaOptions (Some x) ?st = [(r, r)]"
  proof -
    fix r ds
    assume h: "disciplina x \<notin> fst ` set m \<and> disciplina x \<notin> set Object_prototype
                 \<and> find (\<lambda>kv. disciplina x \<in> set (snd kv)) m = Some (r, ds)"
    then have s: "scan_areas (disciplina x) m = Some r"
      by (simp add: scan_areas_find)
    then have a: "FilterBar.area ?st = r"
      using assms(1) h by (simp add: loadFilters_area)
    moreover have "r \<in> set (map fst m)"
      using scan_areas_key [OF s] by simp
    ultimately show "FilterBar.area ?st = r \<and> areaOptions (Some x) ?st = [(r, r)]"
      using opts assms(3) by (simp add: filter_eq_distinct)
  qed
  have c4: "disciplina x \<notin> fst ` set m \<and> disciplina x \<notin> set Object_prototype
               \<and> (\<forall>kv \<in> set m. disciplina x \<notin> set (snd kv)) \<Longrightarrow>
              FilterBar.area ?st = []
              \<and> ([] \<notin> fst ` set m \<longrightarrow> areaOptions (Some x) ?st = [])"
  proof -
    assume h: "disciplina x \<notin> fst ` set m \<and> disciplina x \<notin> set Object_prototype
               \<and> (\<forall>kv \<in> set m. disciplina x \<notin> set (snd kv))"
    then have "scan_areas (disciplina x) m = None"
      by (simp add: scan_areas_None)
    then have a: "FilterBar.area ?st = []"
      using assms(1) h by (simp add: loadFilters_area FilterBar_init_def)
    then show ?thesis
      using opts by (simp add: filter_eq_absent)
  qed
  show ?thesis
    using c1 c2 c3 c4 by blast
qed

theorem restricted_area_options_witness:
  "areaOptions (Some (professor ''Exatas''))
       (fst (loadFilters (Some (professor ''Exatas'')) (Inr two_areas) FilterBar_init))
     = [(''Exatas'', ''Exatas'')]
   \<and> areaOptions (Some (professor ''Historia''))
       (fst (loadFilters (Some (professor ''Historia'')) (Inr two_areas) FilterBar_init))
     = [(''Humanas'', ''Humanas'')]
   \<and> areaOptions (Some (professor ''Biologia''))
       (fst (loadFilters (Some (professor ''Biologia'')) (Inr two_areas) FilterBar_init))
     = []
   \<and> FilterBar.area
       (fst (loadFilters (Some (professor ''constructor''))
              (Inr [(''Exatas'', [''constructor''])]) FilterBar_init))
     = ''constructor''
   \<and> areaOptions (Some (professor ''constructor''))
       (fst (loadFilters (Some (professor ''constructor''))
              (Inr [(''Exatas'', [''constructor''])]) FilterBar_init))
     = []"
  using restricted_area_options [of "professor ''Exatas''" two_areas]
        restricted_area_options [of "professor ''Historia''" two_areas]
        restricted_area_options [of "professor ''Biologia''" two_areas]
        restricted_area_options [of "professor ''constructor''" "[(''Exatas'', [''constructor''])]"]
  by (simp add: professor_def two_areas_def Matematica_def Fisica_def Object_prototype_def)

text \<open>
  C3 as it is stated fails for a mapping that does not have the stored value: for the
  mapping \<open>{"Humanas": ["Historia"]}\<close> and the stored value \<open>Exatas\<close> no area is
  selectable.
\<close>

theorem unresolved_area_no_options:
  "areaOptions (Some (professor ''Exatas''))
       (fst (loadFilters (Some (professor ''Exatas''))
              (Inr [(''Humanas'', [''Historia''])]) FilterBar_init))
     = []
   \<and> areaOptions (Some (professor ''Exatas''))
       (fst (loadFilters (Some (professor ''Exatas''))
              (Inr [(''Humanas'', [''Historia''])]) FilterBar_init))
     \<noteq> [(''Exatas'', ''Exatas'')]"
  by (simp add: areaOptions_def loadFilters_def professor_def unrestricted_def FilterBar_init_def
        Object_prototype_def)

text \<open>
  C8. For the mapping \<open>{"Exatas": ["Matematica", "Fisica"]}\<close> (with the accents of
  the scenario) and a user, not an administrator, whose stored value is the first
  discipline, which is not a key: \<open>loadFilters\<close> selects the area \<open>Exatas\<close>, and the
  discipline options of that area are the two disciplines in the mapping's order.
\<close>

theorem legacy_scenario:
  "FilterBar.area (fst (loadFilters (Some (professor Matematica)) (Inr exatas_mapping) FilterBar_init))
     = ''Exatas''
   \<and> disciplinasDaArea (fst (loadFilters (Some (professor Matematica)) (Inr exatas_mapping) FilterBar_init))
     = [Matematica, Fisica]
   \<and> disciplinaOptions (fst (loadFilters (Some (professor Matematica)) (Inr exatas_mapping) FilterBar_init))
     = [(Matematica, Matematica), (Fisica, Fisica)]
   \<and> areaOptions (Some (professor Matematica))
        (fst (loadFilters (Some (professor Matematica)) (Inr exatas_mapping) FilterBar_init))
     = [(''Exatas'', ''Exatas'')]
   \<and> map_of exatas_mapping Matematica = None"
  by (simp add: loadFilters_def professor_def exatas_mapping_def Matematica_def Fisica_def
        FilterBar_init_def disciplinasDaArea_def disciplinaOptions_def areaOptions_def
        unrestricted_def Object_prototype_def)


theorem legacy_scenario_witness:
  "map_of exatas_mapping Matematica = None
   \<and> Matematica \<notin> set Object_prototype
   \<and> scan_areas Matematica exatas_mapping = Some ''Exatas''
   \<and> disciplinaOptions
        (fst (loadFilters (Some (professor Matematica)) (Inr exatas_mapping) FilterBar_init))
     = [(Matematica, Matematica), (Fisica, Fisica)]"
  using legacy_scenario
  by (simp add: exatas_mapping_def Matematica_def Fisica_def Object_prototype_def)

lemma inv_loaded: "filter_inv (fst (loadFilters u res FilterBar_init))"
proof -
  have "disciplinaId (fst (loadFilters u res FilterBar_init)) = []"
    by (simp add: loadFilters_disciplinaId FilterBar_init_def)
  then show ?thesis by (simp add: filter_inv_def)
qed

lemma inv_area: "filter_inv st \<Longrightarrow> filter_inv (area_onChange u val st)"
  by (cases "unrestricted u") (simp_all add: area_onChange_def filter_inv_def)

lemma disciplinasDaArea_disciplina_onChange:
  "disciplinasDaArea (disciplina_onChange val st) = disciplinasDaArea st"
  by (simp add: disciplinasDaArea_def disciplina_onChange_def)

lemma inv_disciplina:
  assumes "(val, lab) \<in> set (disciplinaOptions st)"
  shows "filter_inv (disciplina_onChange val st)"
proof -
  have "val \<in> set (disciplinasDaArea st)"
    using assms unfolding disciplinaOptions_def by auto
  moreover have "disciplinaId (disciplina_onChange val st) = val"
    by (simp add: disciplina_onChange_def)
  ultimately show ?thesis
    by (simp add: filter_inv_def disciplinasDaArea_disciplina_onChange)
qed

lemma step_area_change:
  "filter_step u st st' \<Longrightarrow> FilterBar.area st' \<noteq> FilterBar.area st \<Longrightarrow> disciplinaId st' = []"
proof (induction rule: filter_step.induct)
  case (loaded res)
  then show ?case by (simp add: loadFilters_disciplinaId FilterBar_init_def)
next
  case (area_picked val lab st)
  then show ?case by (simp add: area_onChange_def split: if_splits)
next
  case (disciplina_picked val lab st)
  then show ?case by (simp add: disciplina_onChange_def)
qed

lemma step_inv: "filter_step u st st' \<Longrightarrow> filter_inv st \<Longrightarrow> filter_inv st'"
proof (induction rule: filter_step.induct)
  case (loaded res)
  show ?case by (rule inv_loaded)
next
  case (area_picked val lab st)
  then show ?case by (simp add: inv_area)
next
  case (disciplina_picked val lab st)
  then show ?case by (simp add: inv_disciplina)
qed

lemma init_inv: "filter_inv FilterBar_init"
  by (simp add: filter_inv_def FilterBar_init_def)

lemma reachable_inv: "(filter_step u)\<^sup>*\<^sup>* FilterBar_init st \<Longrightarrow> filter_inv st"
proof (induction rule: rtranclp_induct)
  case base
  show ?case by (rule init_inv)
next
  case (step y z)
  then show ?case by (simp add: step_inv)
qed

text \<open>
  C4. The filter state of the mount satisfies the invariant: the selected discipline is
  empty or one of the disciplines of the selected area. Every operation on the filter
  state that changes the selected area leaves the selected discipline empty, and every
  operation preserves the invariant; so it holds in every state that the operations
  reach from the mount.
\<close>

theorem area_change_resets_disciplina:
  "filter_inv FilterBar_init
   \<and> (filter_step u st st' \<longrightarrow>
        (FilterBar.area st' \<noteq> FilterBar.area st \<longrightarrow> disciplinaId st' = [])
        \<and> (filter_inv st \<longrightarrow> filter_inv st'))
   \<and> ((filter_step u)\<^sup>*\<^sup>* FilterBar_init st \<longrightarrow> filter_inv st)"
proof (intro conjI impI)
  show "filter_inv FilterBar_init" by (rule init_inv)
next
  assume "filter_step u st st'" and "FilterBar.area st' \<noteq> FilterBar.area st"
  then show "disciplinaId st' = []" by (rule step_area_change)
next
  assume "filter_step u st st'" and "filter_inv st"
  then show "filter_inv st'" by (rule step_inv)
next
  assume "(filter_step u)\<^sup>*\<^sup>* FilterBar_init st"
  then show "filter_inv st" by (rule reachable_inv)
qed

theorem area_change_resets_disciplina_witness:
  "filter_step (Some administrador)
      \<lparr>FilterBar.area = ''Exatas'', disciplinaId = Matematica, areasMapping = two_areas\<rparr>
      \<lparr>FilterBar.area = ''Humanas'', disciplinaId = [], areasMapping = two_areas\<rparr>
   \<and> filter_inv \<lparr>FilterBar.area = ''Exatas'', disciplinaId = Matematica, areasMapping = two_areas\<rparr>
   \<and> filter_inv \<lparr>FilterBar.area = ''Humanas'', disciplinaId = [], areasMapping = two_areas\<rparr>"
proof -
  let ?a = "\<lparr>FilterBar.area = ''Exatas'', disciplinaId = Matematica, areasMapping = two_areas\<rparr>"
  let ?b = "\<lparr>FilterBar.area = ''Humanas'', disciplinaId = [], areasMapping = two_areas\<rparr>"
  have "(''Humanas'', ''Humanas'') \<in> set (areaOptions (Some administrador) ?a)"
    by (simp add: areaOptions_def unrestricted_def administrador_def two_areas_def)
  then have "filter_step (Some administrador) ?a (area_onChange (Some administrador) ''Humanas'' ?a)"
    by (rule filter_step.area_picked)
  moreover have "area_onChange (Some administrador) ''Humanas'' ?a = ?b"
    by (simp add: area_onChange_def unrestricted_def administrador_def)
  ultimately have s: "filter_step (Some administrador) ?a ?b" by simp
  have i: "filter_inv ?a"
    by (simp add: filter_inv_def disciplinasDaArea_def two_areas_def Matematica_def)
  show ?thesis
    using s i area_change_resets_disciplina [of "Some administrador" ?a ?b] by simp
qed

section \<open>Properties of the similarity badge\<close>

lemma bits_bounds: "0 < n \<Longrightarrow> 2 ^ (bits n - 1) \<le> n \<and> n < 2 ^ bits n"
proof (induction n rule: bits.induct)
  case (1 n)
  have b: "bits n = Suc (bits (n div 2))"
    using 1(2) by (simp add: bits.simps)
  show ?case
  proof (cases "n div 2 \<le> 0")
    case True
    with 1(2) have "n = 1" by arith
    then show ?thesis by (simp add: bits.simps)
  next
    case False
    then have h: "2 ^ (bits (n div 2) - 1) \<le> n div 2 \<and> n div 2 < 2 ^ bits (n div 2)"
      using 1 by simp
    have p: "0 < bits (n div 2)"
      using False by (simp add: bits.simps)
    have e: "(2::int) * 2 ^ (bits (n div 2) - 1) = 2 ^ bits (n div 2)"
      using p by (cases "bits (n div 2)") simp_all
    from h have "2 * 2 ^ (bits (n div 2) - 1) \<le> n" by arith
    moreover from h have "n < 2 * 2 ^ bits (n div 2)" by arith
    ultimately show ?thesis using b e by simp
  qed
qed

lemma bits_pos: "0 < n \<Longrightarrow> 0 < bits n"
  by (simp add: bits.simps)

lemma exponent_unfold:
  "quotient_of a = (p, q) \<Longrightarrow>
   exponent a =
     (if 2 powi (int (bits p) - int (bits q)) \<le> a
      then int (bits p) - int (bits q) else int (bits p) - int (bits q) - 1)"
  by (simp add: exponent_def Let_def)

lemma pow2_diff:
  "0 < m \<Longrightarrow> (2::rat) powi (int m - int n - 1) = 2 ^ (m - 1) / 2 ^ n"
proof -
  assume "0 < m"
  then have "int m - int n - 1 = int (m - 1) - int n" by simp
  then have "(2::rat) powi (int m - int n - 1) = 2 powi (int (m - 1) - int n)"
    by (simp only:)
  also have "\<dots> = 2 powi int (m - 1) / 2 powi int n"
    by (rule power_int_diff) simp
  also have "\<dots> = 2 ^ (m - 1) / 2 ^ n"
    by (simp only: power_int_of_nat)
  finally show ?thesis .
qed

lemma exponent_le:
  assumes "0 < a"
  shows "2 powi (exponent a) \<le> a"
proof -
  obtain p q where pq: "quotient_of a = (p, q)" by (cases "quotient_of a")
  have q: "0 < q" using pq by (rule quotient_of_denom_pos)
  have a: "a = of_int p / of_int q" using pq by (rule quotient_of_div)
  have n3: "(0::rat) < of_int q" using q by simp
  have p: "0 < p"
  proof (rule ccontr)
    assume "\<not> 0 < p"
    then have "(of_int p :: rat) \<le> 0" by simp
    then have "of_int p / of_int q \<le> (0::rat)"
      using n3 by (rule divide_nonpos_pos)
    then have "a \<le> 0" by (simp only: a)
    with assms show False by simp
  qed
  have n1: "(2::rat) ^ (bits p - 1) \<le> of_int p"
  proof -
    have "(2::int) ^ (bits p - 1) \<le> p" using bits_bounds [OF p] by simp
    then have "of_int ((2::int) ^ (bits p - 1)) \<le> (of_int p :: rat)"
      by (simp only: of_int_le_iff)
    then show ?thesis by simp
  qed
  have n2: "of_int q \<le> (2::rat) ^ bits q"
  proof -
    have "q \<le> (2::int) ^ bits q" using bits_bounds [OF q] by simp
    then have "(of_int q :: rat) \<le> of_int ((2::int) ^ bits q)"
      by (simp only: of_int_le_iff)
    then show ?thesis by simp
  qed
  have n4: "(0::rat) \<le> of_int p" using p by simp
  have "(2::rat) ^ (bits p - 1) / 2 ^ bits q \<le> of_int p / of_int q"
    by (rule frac_le [OF n4 n1 n3 n2])
  then have "(2::rat) powi (int (bits p) - int (bits q) - 1) \<le> of_int p / of_int q"
    by (simp only: pow2_diff [OF bits_pos [OF p]])
  then have lo: "(2::rat) powi (int (bits p) - int (bits q) - 1) \<le> a"
    by (simp only: a)
  show ?thesis
  proof (cases "2 powi (int (bits p) - int (bits q)) \<le> a")
    case True
    then show ?thesis by (simp only: exponent_unfold [OF pq] if_True)
  next
    case False
    then show ?thesis using lo by (simp only: exponent_unfold [OF pq] if_False)
  qed
qed

lemma round_half_even_close: "\<bar>of_int (round_half_even y) - y\<bar> \<le> 1 / 2"
proof -
  have "of_int \<lfloor>y\<rfloor> \<le> y" and "y < of_int \<lfloor>y\<rfloor> + 1" by linarith+
  then show ?thesis
    unfolding round_half_even_def Let_def by (auto simp: abs_le_iff)
qed

lemma round_half_even_le:
  assumes "y \<le> of_int N"
  shows "round_half_even y \<le> N"
proof (cases "y = of_int N")
  case True
  then show ?thesis by (simp add: round_half_even_def Let_def)
next
  case False
  with assms have "y < of_int N" by simp
  then have "\<lfloor>y\<rfloor> < N" by (simp add: floor_less_iff)
  then have "\<lfloor>y\<rfloor> + 1 \<le> N" by simp
  then show ?thesis
    unfolding round_half_even_def Let_def by auto
qed

lemma round_half_even_nonneg:
  assumes "0 \<le> y"
  shows "0 \<le> round_half_even y"
proof -
  have "0 \<le> \<lfloor>y\<rfloor>" using assms by simp
  then show ?thesis
    unfolding round_half_even_def Let_def by auto
qed

lemma pow2_diff_up:
  "0 < n \<Longrightarrow> (2::rat) powi (int m - int n + 1) = 2 ^ m / 2 ^ (n - 1)"
proof -
  assume "0 < n"
  then have "int m - int n + 1 = int m - int (n - 1)" by simp
  then have "(2::rat) powi (int m - int n + 1) = 2 powi (int m - int (n - 1))"
    by (simp only:)
  also have "\<dots> = 2 powi int m / 2 powi int (n - 1)"
    by (rule power_int_diff) simp
  also have "\<dots> = 2 ^ m / 2 ^ (n - 1)"
    by (simp only: power_int_of_nat)
  finally show ?thesis .
qed

lemma exponent_less:
  assumes "0 < a"
  shows "a < 2 powi (exponent a + 1)"
proof -
  obtain p q where pq: "quotient_of a = (p, q)" by (cases "quotient_of a")
  have q: "0 < q" using pq by (rule quotient_of_denom_pos)
  have a: "a = of_int p / of_int q" using pq by (rule quotient_of_div)
  have n3: "(0::rat) < of_int q" using q by simp
  have n1: "of_int p < (2::rat) ^ bits p"
  proof (cases "0 < p")
    case True
    then have "p < (2::int) ^ bits p" using bits_bounds by simp
    then have "(of_int p :: rat) < of_int ((2::int) ^ bits p)"
      by (simp only: of_int_less_iff)
    then show ?thesis by simp
  next
    case False
    then have "(of_int p :: rat) \<le> 0" by simp
    moreover have "(0::rat) < 2 ^ bits p" by simp
    ultimately show ?thesis by (rule le_less_trans)
  qed
  have n2: "(2::rat) ^ (bits q - 1) \<le> of_int q"
  proof -
    have "(2::int) ^ (bits q - 1) \<le> q" using bits_bounds [OF q] by simp
    then have "of_int ((2::int) ^ (bits q - 1)) \<le> (of_int q :: rat)"
      by (simp only: of_int_le_iff)
    then show ?thesis by simp
  qed
  have n5: "(0::rat) < 2 ^ (bits q - 1)" by simp
  have "of_int p / of_int q < (2::rat) ^ bits p / of_int q"
    using n1 n3 by (rule divide_strict_right_mono)
  also have "\<dots> \<le> 2 ^ bits p / 2 ^ (bits q - 1)"
  proof (rule divide_left_mono [OF n2])
    show "(0::rat) \<le> 2 ^ bits p" by simp
    show "(0::rat) < of_int q * 2 ^ (bits q - 1)" using n3 n5 by (rule mult_pos_pos)
  qed
  finally have "of_int p / of_int q < (2::rat) powi (int (bits p) - int (bits q) + 1)"
    by (simp only: pow2_diff_up [OF bits_pos [OF q]])
  then have hi: "a < (2::rat) powi (int (bits p) - int (bits q) + 1)"
    by (simp only: a)
  show ?thesis
  proof (cases "2 powi (int (bits p) - int (bits q)) \<le> a")
    case True
    then show ?thesis using hi by (simp only: exponent_unfold [OF pq] if_True)
  next
    case False
    then have "a < 2 powi (int (bits p) - int (bits q))" by simp
    then show ?thesis using False by (simp only: exponent_unfold [OF pq] if_False diff_add_cancel)
  qed
qed

lemma exponent_small:
  assumes "0 < a" and "a \<le> 100"
  shows "exponent a \<le> 6"
proof (rule ccontr)
  assume "\<not> exponent a \<le> 6"
  then have "7 \<le> exponent a" by simp
  then have "(2::rat) powi 7 \<le> 2 powi (exponent a)"
    by (intro power_int_increasing) simp_all
  also have "\<dots> \<le> a" using assms(1) by (rule exponent_le)
  finally have "(128::rat) \<le> a" by simp
  with assms(2) show False by simp
qed

lemma to_double_pos:
  assumes "0 < x"
  shows "to_double x =
           of_int (round_half_even (x / 2 powi (max (exponent x) (- 1022) - 52)))
             * 2 powi (max (exponent x) (- 1022) - 52)"
  using assms by (simp add: to_double_def Let_def)

lemma to_double_range:
  assumes "0 \<le> x" and "x \<le> 100"
  shows "0 \<le> to_double x \<and> to_double x \<le> 100 \<and> \<bar>to_double x - x\<bar> \<le> 1 / 2 ^ 47"
proof (cases "x = 0")
  case True
  then show ?thesis by (simp add: to_double_def)
next
  case False
  with assms have pos: "0 < x" by simp
  define m where "m = max (exponent x) (- 1022) - 52"
  define u where "u = (2::rat) powi m"
  define n where "n = round_half_even (x / u)"
  have td: "to_double x = of_int n * u"
    using to_double_pos [OF pos] by (simp only: n_def u_def m_def)
  have m: "m \<le> - 46"
    using exponent_small [OF pos assms(2)] by (simp add: m_def)
  have u0: "0 < u" by (simp add: u_def)
  have u46: "u \<le> 1 / 2 ^ 46"
  proof -
    have "(2::rat) powi m \<le> 2 powi (- 46)"
      using m by (intro power_int_increasing) simp_all
    then show ?thesis by (simp add: u_def power_int_minus_divide)
  qed
  have uinv: "1 / u = of_int (2 ^ nat (- m))"
  proof -
    have "m = - int (nat (- m))" using m by simp
    then have "u = 2 powi (- int (nat (- m)))" by (simp only: u_def)
    then have "u = 1 / 2 ^ nat (- m)"
      by (simp only: power_int_minus_divide power_int_of_nat)
    then show ?thesis by simp
  qed
  have xu: "x / u = x * of_int (2 ^ nat (- m))"
  proof -
    have "x / u = x * (1 / u)" by simp
    then show ?thesis by (simp only: uinv)
  qed
  have n0: "0 \<le> n"
    unfolding n_def using assms(1) u0 by (intro round_half_even_nonneg) simp
  have nN: "n \<le> 100 * 2 ^ nat (- m)"
  proof -
    have "x / u \<le> 100 * of_int (2 ^ nat (- m))"
      using assms(2) by (simp add: xu mult_right_mono)
    then have "x / u \<le> of_int (100 * 2 ^ nat (- m))" by simp
    then show ?thesis unfolding n_def by (rule round_half_even_le)
  qed
  have lo: "0 \<le> to_double x"
    using n0 u0 by (simp add: td)
  have hi: "to_double x \<le> 100"
  proof -
    have "(of_int n :: rat) \<le> of_int (100 * 2 ^ nat (- m))"
      using nN by (simp only: of_int_le_iff)
    then have "of_int n * u \<le> of_int (100 * 2 ^ nat (- m)) * u"
      using u0 by (simp add: mult_right_mono)
    also have "\<dots> = 100 * (of_int (2 ^ nat (- m)) * u)" by simp
    also have "of_int (2 ^ nat (- m)) * u = 1"
      using uinv u0 by (simp add: field_simps)
    finally show ?thesis by (simp add: td)
  qed
  have err: "\<bar>to_double x - x\<bar> \<le> 1 / 2 ^ 47"
  proof -
    have "to_double x - x = (of_int n - x / u) * u"
      using u0 by (simp add: td field_simps)
    then have "\<bar>to_double x - x\<bar> = \<bar>of_int n - x / u\<bar> * u"
      using u0 by (simp add: abs_mult)
    also have "\<dots> \<le> (1 / 2) * u"
      using round_half_even_close [of "x / u"] u0 unfolding n_def
      by (intro mult_right_mono) simp_all
    also have "\<dots> \<le> (1 / 2) * (1 / 2 ^ 46)"
      using u46 by simp
    also have "\<dots> = 1 / 2 ^ 47" by simp
    finally show ?thesis .
  qed
  show ?thesis using lo hi err by simp
qed

lemma Math_round_iff: "Math_round x = n \<longleftrightarrow> of_int n - 1 / 2 \<le> x \<and> x < of_int n + 1 / 2"
proof -
  have "\<lfloor>x + 1 / 2\<rfloor> = n \<longleftrightarrow> of_int n \<le> x + 1 / 2 \<and> x + 1 / 2 < of_int n + 1"
    by (rule floor_eq_iff)
  moreover have "of_int n \<le> x + 1 / 2 \<longleftrightarrow> of_int n - 1 / 2 \<le> x" by linarith
  moreover have "x + 1 / 2 < of_int n + 1 \<longleftrightarrow> x < of_int n + 1 / 2" by linarith
  ultimately show ?thesis unfolding Math_round_def by simp
qed

lemma Math_round_range:
  assumes "0 \<le> p" and "p \<le> 100"
  shows "0 \<le> Math_round p \<and> Math_round p \<le> 100"
proof
  have "(0::rat) \<le> p + 1 / 2" using assms(1) by simp
  then show "0 \<le> Math_round p"
    unfolding Math_round_def by (simp only: zero_le_floor)
  have "p + 1 / 2 < of_int 101" using assms(2) by simp
  then have "\<lfloor>p + 1 / 2\<rfloor> < 101" by (simp only: floor_less_iff)
  then show "Math_round p \<le> 100"
    unfolding Math_round_def by simp
qed


lemma badge_tiers:
  "\<exists>b. MatchBadge (Some s) = Some b
       \<and> badge_text b = show_int (Math_round (double_mul s 100)) @ ''%''
       \<and> (80 \<le> Math_round (double_mul s 100) \<longrightarrow>
             (color b, bg b, borderColor b) = (''#166534'', ''#bbf7d0'', ''#4ade80''))
       \<and> (60 \<le> Math_round (double_mul s 100) \<and> Math_round (double_mul s 100) < 80 \<longrightarrow>
             (color b, bg b, borderColor b) = (''#854d0e'', ''#fef08a'', ''#facc15''))
       \<and> (Math_round (double_mul s 100) < 60 \<longrightarrow>
             (color b, bg b, borderColor b) = (''#991b1b'', ''#fecaca'', ''#f87171''))"
  by (simp add: MatchBadge_def Let_def)

lemma double_mul_range:
  assumes "0 \<le> s" and "s \<le> 1"
  shows "0 \<le> double_mul s 100 \<and> double_mul s 100 \<le> 100
         \<and> \<bar>double_mul s 100 - s * 100\<bar> \<le> 1 / 2 ^ 47"
proof -
  have "0 \<le> s * 100" and "s * 100 \<le> 100" using assms by simp_all
  then show ?thesis unfolding double_mul_def by (rule to_double_range)
qed

lemma badge_85:
  "MatchBadge (Some (to_double (85 / 100))) =
     Some \<lparr>badge_text = ''85%'', color = ''#166534'', bg = ''#bbf7d0'', borderColor = ''#4ade80''\<rparr>"
  by code_simp

lemma badge_55:
  "MatchBadge (Some (to_double (55 / 100))) =
     Some \<lparr>badge_text = ''55%'', color = ''#991b1b'', bg = ''#fecaca'', borderColor = ''#f87171''\<rparr>"
  by code_simp

lemma badge_half:
  "MatchBadge (Some (to_double (5 / 1000))) =
     Some \<lparr>badge_text = ''1%'', color = ''#991b1b'', bg = ''#fecaca'', borderColor = ''#f87171''\<rparr>"
  by code_simp

lemma double_mul_half: "double_mul (to_double (5 / 1000)) 100 = 1 / 2"
  by code_simp

lemma double_mul_ties:
  "double_mul (394064967394919 / 562949953421312) 100 = 615726511554561 / 8796093022208
   \<and> double_mul (394064967394921 / 562949953421312) 100 = 153931627888641 / 2199023255552"
  by code_simp

lemma doubles_of_decimals:
  "to_double (85 / 100) = 7656119366529843 / 9007199254740992
   \<and> to_double (55 / 100) = 2476979795053773 / 4503599627370496"
  by code_simp

lemma confirmar_only_id:
  "q \<noteq> JNull \<Longrightarrow> q' \<noteq> JNull \<Longrightarrow> get q ''id'' = get q' ''id'' \<Longrightarrow>
   snd (snd (handleConfirmar fetch w (v\<lparr>questao := q\<rparr>)))
     = snd (snd (handleConfirmar fetch w (v\<lparr>questao := q'\<rparr>)))"
  by (simp add: handleConfirmar_unfold Let_def verificar_fetchProxima_begin_def split: sum.splits)

lemma correcao_only_id:
  assumes "q \<noteq> JNull" and "q' \<noteq> JNull" and "get q ''id'' = get q' ''id''"
  shows "snd (snd (handleSalvarCorrecao fetch w (v\<lparr>questao := q\<rparr>)))
           = snd (snd (handleSalvarCorrecao fetch w (v\<lparr>questao := q'\<rparr>)))"
proof (cases "truthy (moduloSelecionado v)")
  case True
  with assms show ?thesis
    by (simp add: handleSalvarCorrecao_unfold Let_def verificar_fetchProxima_begin_def
          split: sum.splits)
next
  case False
  then show ?thesis by (simp add: handleSalvarCorrecao_no_module)
qed

text \<open>
  C9. For a score between 0 and 1 the badge shows \<open>Math.round(score * 100)\<close>, a whole
  number from 0 to 100, followed by the percent sign, and its style is decided by that
  number alone: the green style from 80, the yellow style from 60 to 79, the red style
  below 60. The score 0.85 shows as 85% in the green style and 0.55 as 55% in the red
  style. The requests of \<open>handleConfirmar\<close> and \<open>handleSalvarCorrecao\<close> depend on
  the question only through its \<open>id\<close>, so neither the score nor its style changes a
  submitted decision.
\<close>

text \<open>
  C9, as the code has it. For a score between 0 and 1 the badge shows the whole number
  nearest to the product of the score and 100 as the doubles give it, a half going
  upwards, followed by the percent sign. That product is within 2 to the power -47 of the exact
  one and between 0 and 100, so the number shown is between 0 and 100. The style is
  decided by the number shown alone: green from 80, yellow from 60 to 79, red below 60.
  The score 0.85 shows as 85% in the green style and 0.55 as 55% in the red style; a
  product of exactly one half shows as 1%, and a product half way between two doubles
  goes to the even one. The requests of \<open>handleConfirmar\<close> and
  \<open>handleSalvarCorrecao\<close> depend on the question only through its \<open>id\<close>, so neither
  the score nor its style changes a submitted decision.
\<close>

theorem similarity_badge:
  "(0 \<le> s \<and> s \<le> 1 \<longrightarrow>
      (\<exists>b p n. MatchBadge (Some s) = Some b
         \<and> p = double_mul s 100 \<and> \<bar>p - s * 100\<bar> \<le> 1 / 2 ^ 47 \<and> 0 \<le> p \<and> p \<le> 100
         \<and> of_int n - 1 / 2 \<le> p \<and> p < of_int n + 1 / 2 \<and> 0 \<le> n \<and> n \<le> 100
         \<and> badge_text b = show_int n @ ''%''
         \<and> (80 \<le> n \<longrightarrow>
               (color b, bg b, borderColor b) = (''#166534'', ''#bbf7d0'', ''#4ade80''))
         \<and> (60 \<le> n \<and> n < 80 \<longrightarrow>
               (color b, bg b, borderColor b) = (''#854d0e'', ''#fef08a'', ''#facc15''))
         \<and> (n < 60 \<longrightarrow>
               (color b, bg b, borderColor b) = (''#991b1b'', ''#fecaca'', ''#f87171''))))
   \<and> MatchBadge (Some (to_double (85 / 100))) =
       Some \<lparr>badge_text = ''85%'', color = ''#166534'', bg = ''#bbf7d0'', borderColor = ''#4ade80''\<rparr>
   \<and> MatchBadge (Some (to_double (55 / 100))) =
       Some \<lparr>badge_text = ''55%'', color = ''#991b1b'', bg = ''#fecaca'', borderColor = ''#f87171''\<rparr>
   \<and> to_double (85 / 100) = 7656119366529843 / 9007199254740992
   \<and> to_double (55 / 100) = 2476979795053773 / 4503599627370496
   \<and> double_mul (to_double (5 / 1000)) 100 = 1 / 2
   \<and> MatchBadge (Some (to_double (5 / 1000))) =
       Some \<lparr>badge_text = ''1%'', color = ''#991b1b'', bg = ''#fecaca'', borderColor = ''#f87171''\<rparr>
   \<and> double_mul (394064967394919 / 562949953421312) 100 = 615726511554561 / 8796093022208
   \<and> double_mul (394064967394921 / 562949953421312) 100 = 153931627888641 / 2199023255552
   \<and> (q \<noteq> JNull \<and> q' \<noteq> JNull \<and> get q ''id'' = get q' ''id'' \<longrightarrow>
        snd (snd (handleConfirmar fetch w (v\<lparr>questao := q\<rparr>)))
          = snd (snd (handleConfirmar fetch w (v\<lparr>questao := q'\<rparr>)))
        \<and> snd (snd (handleSalvarCorrecao fetch w (v\<lparr>questao := q\<rparr>)))
          = snd (snd (handleSalvarCorrecao fetch w (v\<lparr>questao := q'\<rparr>))))"
proof -
  have general: "0 \<le> s \<and> s \<le> 1 \<longrightarrow>
      (\<exists>b p n. MatchBadge (Some s) = Some b
         \<and> p = double_mul s 100 \<and> \<bar>p - s * 100\<bar> \<le> 1 / 2 ^ 47 \<and> 0 \<le> p \<and> p \<le> 100
         \<and> of_int n - 1 / 2 \<le> p \<and> p < of_int n + 1 / 2 \<and> 0 \<le> n \<and> n \<le> 100
         \<and> badge_text b = show_int n @ ''%''
         \<and> (80 \<le> n \<longrightarrow>
               (color b, bg b, borderColor b) = (''#166534'', ''#bbf7d0'', ''#4ade80''))
         \<and> (60 \<le> n \<and> n < 80 \<longrightarrow>
               (color b, bg b, borderColor b) = (''#854d0e'', ''#fef08a'', ''#facc15''))
         \<and> (n < 60 \<longrightarrow>
               (color b, bg b, borderColor b) = (''#991b1b'', ''#fecaca'', ''#f87171'')))"
  proof
    assume h: "0 \<le> s \<and> s \<le> 1"
    define p where "p = double_mul s 100"
    define n where "n = Math_round p"
    have pr: "0 \<le> p \<and> p \<le> 100 \<and> \<bar>p - s * 100\<bar> \<le> 1 / 2 ^ 47"
      using h double_mul_range [of s] by (simp add: p_def)
    have nr: "0 \<le> n \<and> n \<le> 100"
      using pr Math_round_range [of p] by (simp add: n_def)
    have nc: "of_int n - 1 / 2 \<le> p \<and> p < of_int n + 1 / 2"
      using Math_round_iff [of p n] by (simp add: n_def)
    obtain b where b: "MatchBadge (Some s) = Some b"
      and bt: "badge_text b = show_int n @ ''%''"
      and b1: "80 \<le> n \<longrightarrow>
               (color b, bg b, borderColor b) = (''#166534'', ''#bbf7d0'', ''#4ade80'')"
      and b2: "60 \<le> n \<and> n < 80 \<longrightarrow>
               (color b, bg b, borderColor b) = (''#854d0e'', ''#fef08a'', ''#facc15'')"
      and b3: "n < 60 \<longrightarrow>
               (color b, bg b, borderColor b) = (''#991b1b'', ''#fecaca'', ''#f87171'')"
      using badge_tiers [of s] unfolding n_def p_def by blast
    show "\<exists>b p n. MatchBadge (Some s) = Some b
         \<and> p = double_mul s 100 \<and> \<bar>p - s * 100\<bar> \<le> 1 / 2 ^ 47 \<and> 0 \<le> p \<and> p \<le> 100
         \<and> of_int n - 1 / 2 \<le> p \<and> p < of_int n + 1 / 2 \<and> 0 \<le> n \<and> n \<le> 100
         \<and> badge_text b = show_int n @ ''%''
         \<and> (80 \<le> n \<longrightarrow>
               (color b, bg b, borderColor b) = (''#166534'', ''#bbf7d0'', ''#4ade80''))
         \<and> (60 \<le> n \<and> n < 80 \<longrightarrow>
               (color b, bg b, borderColor b) = (''#854d0e'', ''#fef08a'', ''#facc15''))
         \<and> (n < 60 \<longrightarrow>
               (color b, bg b, borderColor b) = (''#991b1b'', ''#fecaca'', ''#f87171''))"
      using b bt b1 b2 b3 pr nr nc p_def by blast
  qed
  have only_id: "q \<noteq> JNull \<and> q' \<noteq> JNull \<and> get q ''id'' = get q' ''id'' \<longrightarrow>
        snd (snd (handleConfirmar fetch w (v\<lparr>questao := q\<rparr>)))
          = snd (snd (handleConfirmar fetch w (v\<lparr>questao := q'\<rparr>)))
        \<and> snd (snd (handleSalvarCorrecao fetch w (v\<lparr>questao := q\<rparr>)))
          = snd (snd (handleSalvarCorrecao fetch w (v\<lparr>questao := q'\<rparr>)))"
    using confirmar_only_id [of q q' fetch w v] correcao_only_id [of q q' fetch w v] by blast
  show ?thesis
    using general only_id badge_85 badge_55 badge_half double_mul_half double_mul_ties
      doubles_of_decimals
    by (intro conjI) (simp_all only:)
qed

theorem similarity_badge_witness:
  "MatchBadge (Some (3242591731706757 / 4503599627370496)) =
      Some \<lparr>badge_text = ''72%'', color = ''#854d0e'', bg = ''#fef08a'', borderColor = ''#facc15''\<rparr>
   \<and> \<bar>double_mul (3242591731706757 / 4503599627370496) 100
        - 3242591731706757 / 4503599627370496 * 100\<bar> \<le> 1 / 2 ^ 47
   \<and> snd (snd (handleConfirmar server_saves sample_window
                  (sample_verificar\<lparr>questao :=
                     JObj [(''id'', JNum 42 ''42''), (''similaridade'', JNum (85 / 100) ''0.85'')]\<rparr>)))
     = snd (snd (handleConfirmar server_saves sample_window
                  (sample_verificar\<lparr>questao :=
                     JObj [(''id'', JNum 42 ''42''), (''similaridade'', JNum (55 / 100) ''0.55'')]\<rparr>)))"
proof -
  have b: "MatchBadge (Some (3242591731706757 / 4503599627370496)) =
      Some \<lparr>badge_text = ''72%'', color = ''#854d0e'', bg = ''#fef08a'', borderColor = ''#facc15''\<rparr>"
    by code_simp
  have r: "(0::rat) \<le> 3242591731706757 / 4503599627370496
           \<and> (3242591731706757 / 4503599627370496 :: rat) \<le> 1" by simp
  show ?thesis
    using b r
      similarity_badge [of "3242591731706757 / 4503599627370496"
        "JObj [(''id'', JNum 42 ''42''), (''similaridade'', JNum (85 / 100) ''0.85'')]"
        "JObj [(''id'', JNum 42 ''42''), (''similaridade'', JNum (55 / 100) ''0.55'')]"
        server_saves sample_window sample_verificar]
    by auto
qed

text \<open>
  C9 as it is stated fails where the doubles round the product up to a half: the score
  0.7949999999999999, a double, times 100 is below 79.5 and rounds to 79, but the badge
  shows 80% in the green style.
\<close>

theorem rounded_product_differs:
  "MatchBadge (Some (447545212969943 / 562949953421312)) =
      Some \<lparr>badge_text = ''80%'', color = ''#166534'', bg = ''#bbf7d0'', borderColor = ''#4ade80''\<rparr>
   \<and> Math_round (447545212969943 / 562949953421312 * 100) = 79
   \<and> to_double (447545212969943 / 562949953421312) = 447545212969943 / 562949953421312
   \<and> (0::rat) \<le> 447545212969943 / 562949953421312
   \<and> (447545212969943 / 562949953421312 :: rat) \<le> 1"
  by code_simp

end
